theory Spec2Isabelle
  imports Complex_Main "HOL-Library.Word" "HOL-Library.Signed_Division"
begin

section \<open>The GPS L2 CM tracker\<close>

text \<open>
  The tracker is embedded by explicit state passing. The two structs the update function
  mutates (the shared \<open>tracker_common_data_t\<close> and the private
  \<open>gps_l2cm_tracker_data_t\<close>) are records; every call of the tracker API that acts on
  the hardware context (retune, ambiguity reset, bit sync, telemetry, logging) is appended
  to a trace of events; what the hardware delivers in one call (the correlations read, the
  time of week, the bit alignment) is an input record.

  Floating-point numbers (\<open>float\<close> and \<open>double\<close>) are an abstract type \<open>'f\<close> with
  the operations the file applies to them (\<open>+\<close>, \<open>-\<close>, \<open>*\<close>, \<open>/\<close>, \<open>abs\<close>, \<open><\<close>);
  these are the purely syntactic classes, so no law of arithmetic is assumed and every
  theorem holds for IEEE arithmetic as for the reals. The functions of libswiftnav, the
  two \<open>sscanf\<close> calls, the constants of libswiftnav and the conversions of C between
  integers and floating point are parameters, collected in the record \<open>externals\<close>.
  Where the source can divide by zero the model returns the error \<open>Division_by_zero\<close>.
\<close>

subsection \<open>Machine types\<close>

unbundle bit_operations_syntax

type_synonym u8 = "8 word"
type_synonym u16 = "16 word"
type_synonym u32 = "32 word"
type_synonym s8 = "8 word"   \<comment> \<open>read with \<open>sint\<close>\<close>
type_synonym s32 = "32 word" \<comment> \<open>read with \<open>sint\<close>\<close>

datatype error = Division_by_zero

text \<open>
  \<open>corr_t\<close>, the correlator's I/Q pair, and libswiftnav's \<open>correlation_t\<close>, a
  floating-point I/Q pair, are the same record at two types. The header that declares
  \<open>corr_t\<close> is not among the sources; its I and Q are the 32-bit signed integers
  that the integer division of line 320 and the \<open>s32\<close> temporaries of lines 369-370
  take them for. The arrays \<open>cs[3]\<close> are lists indexed as in the source: early
  \<open>[0]\<close>, prompt \<open>[1]\<close>, late \<open>[2]\<close>.
\<close>

record 'a corr =
  I :: 'a
  Q :: 'a

type_synonym corr_t = "s32 corr"
type_synonym 'f correlation_t = "'f corr"

subsection \<open>Library state: the fields this file touches, and an opaque rest\<close>

record ('f, 'tl) aided_tl_state_t =
  carr_freq :: 'f
  code_freq :: 'f
  carr_filt_y :: 'f    \<comment> \<open>\<open>carr_filt.y\<close>\<close>
  tl_internal :: 'tl

record 'ld lock_detect_t =
  outp :: bool
  outo :: bool
  ld_internal :: 'ld

record ('f, 'ad) alias_detect_t =
  first_I :: 'f
  first_Q :: 'f
  ad_internal :: 'ad

subsection \<open>Configuration (the file's static variables)\<close>

record 'f loop_params_t =
  code_bw :: 'f
  code_zeta :: 'f
  code_k :: 'f
  carr_to_code :: 'f
  carr_bw :: 'f
  carr_zeta :: 'f
  carr_k :: 'f
  carr_fll_aid_gain :: 'f
  coherent_ms :: u8

record 'f lock_detect_params_t =
  k1 :: 'f
  k2 :: 'f
  lp :: u16
  lo :: u16

record 'f globals =
  loop_params_stage :: "'f loop_params_t"
  lock_detect_params :: "'f lock_detect_params_t"
  track_cn0_use_thres :: 'f
  track_cn0_drop_thres :: 'f
  use_alias_detection :: bool

definition L2C_COHERENT_INTEGRATION_TIME_MS :: u8 where
  "L2C_COHERENT_INTEGRATION_TIME_MS = 20"

definition L2C_ALIAS_DETECT_INTERVAL_MS :: int where
  "L2C_ALIAS_DETECT_INTERVAL_MS = 500"

definition CN0_EST_LPF_CUTOFF :: real where
  "CN0_EST_LPF_CUTOFF = 5"

subsection \<open>Tracker state\<close>

record 'f tracker_common_data_t =
  update_count :: u32
  mode_change_count :: u32
  cn0_below_use_thres_count :: u32
  cn0_above_drop_thres_count :: u32
  ld_opti_locked_count :: u32
  ld_pess_unlocked_count :: u32
  TOW_ms :: s32
  sample_count :: u32
  code_phase_early :: 'f
  code_phase_rate :: 'f
  carrier_phase :: 'f
  carrier_freq :: 'f
  cn0 :: 'f

record ('f, 'tl, 'cn, 'ad, 'ld) gps_l2cm_tracker_data_t =
  tl_state :: "('f, 'tl) aided_tl_state_t"
  cs :: "corr_t list"
  cn0_est_st :: 'cn      \<comment> \<open>the field \<open>cn0_est\<close>\<close>
  int_ms :: u8
  short_cycle :: bool
  stage :: u8
  alias_detect :: "('f, 'ad) alias_detect_t"
  lock_detect_st :: "'ld lock_detect_t"   \<comment> \<open>the field \<open>lock_detect\<close>\<close>

subsection \<open>The environment of one call\<close>

text \<open>
  What the tracker API returns during one call of the update function:
  \<open>tracker_correlations_read\<close> delivers the three correlations, the sample count, the
  early code phase and the carrier phase; \<open>tracker_tow_update\<close> maps the current time of
  week and the integration length to the new time of week; \<open>tracker_bit_aligned\<close>
  answers yes or no. The hardware fills an array of three correlations, so \<open>rd_cs\<close>
  has three entries.
\<close>

record 'f tracker_context_t =
  rd_cs :: "corr_t list"
  rd_sample_count :: u32
  rd_code_phase_early :: 'f
  rd_carrier_phase :: 'f
  tracker_tow_update :: "s32 \<Rightarrow> u8 \<Rightarrow> s32"
  tracker_bit_aligned :: bool

datatype 'f event =
    Correlations_read
  | Tow_update s32 u8
  | Retune 'f 'f u8
  | Bit_sync_update u8 s32
  | Ambiguity_unknown
  | Correlations_send "corr_t list"
  | Log_debug string
  | Log_info string
  | Log_warn string
  | Log_error string

record ('f, 'tl, 'cn, 'ad, 'ld) externals =
  to_float :: "real \<Rightarrow> 'f"
    \<comment> \<open>the floating-point value of a literal or of an integer (C's conversion)\<close>
  float_to_s32 :: "'f \<Rightarrow> s32"
    \<comment> \<open>C's conversion of a floating-point value to \<open>s32\<close>\<close>
  GPS_CA_CHIPPING_RATE :: 'f
  GPS_L1_HZ :: 'f
  GPS_L2_HZ :: 'f
  sscanf_loop_params :: "string \<Rightarrow> int \<times> u32 \<times> 'f loop_params_t"
    \<comment> \<open>\<open>sscanf\<close> with the format of line 421: the number of items assigned, the
        \<open>unsigned int\<close> read by \<open>%u\<close> and the eight floats\<close>
  sscanf_lock_detect_params :: "string \<Rightarrow> int \<times> 'f lock_detect_params_t"
    \<comment> \<open>\<open>sscanf\<close> with the format of line 459\<close>
  aided_tl_init :: "('f, 'tl) aided_tl_state_t \<Rightarrow> 'f \<Rightarrow> 'f \<Rightarrow> 'f \<Rightarrow> 'f \<Rightarrow> 'f \<Rightarrow> 'f
                    \<Rightarrow> 'f \<Rightarrow> 'f \<Rightarrow> 'f \<Rightarrow> 'f \<Rightarrow> 'f \<Rightarrow> ('f, 'tl) aided_tl_state_t"
  aided_tl_update :: "('f, 'tl) aided_tl_state_t \<Rightarrow> 'f correlation_t list
                    \<Rightarrow> ('f, 'tl) aided_tl_state_t"
  cn0_est_init :: "'cn \<Rightarrow> 'f \<Rightarrow> 'f \<Rightarrow> 'f \<Rightarrow> 'f \<Rightarrow> 'cn"
  cn0_est :: "'cn \<Rightarrow> 'f \<Rightarrow> 'f \<Rightarrow> 'f \<times> 'cn"
  lock_detect_init :: "'ld lock_detect_t \<Rightarrow> 'f \<Rightarrow> 'f \<Rightarrow> u16 \<Rightarrow> u16 \<Rightarrow> 'ld lock_detect_t"
  lock_detect_update :: "'ld lock_detect_t \<Rightarrow> 'f \<Rightarrow> 'f \<Rightarrow> 'f \<Rightarrow> 'ld lock_detect_t"
  alias_detect_init :: "('f, 'ad) alias_detect_t \<Rightarrow> u32 \<Rightarrow> 'f \<Rightarrow> ('f, 'ad) alias_detect_t"
  alias_detect_first :: "('f, 'ad) alias_detect_t \<Rightarrow> 'f \<Rightarrow> 'f \<Rightarrow> ('f, 'ad) alias_detect_t"
  alias_detect_second :: "('f, 'ad) alias_detect_t \<Rightarrow> 'f \<Rightarrow> 'f
                    \<Rightarrow> 'f \<times> ('f, 'ad) alias_detect_t"

text \<open>The state threaded through one call: both structs and the trace of API calls.\<close>

record ('f, 'tl, 'cn, 'ad, 'ld) st =
  common :: "'f tracker_common_data_t"
  data :: "('f, 'tl, 'cn, 'ad, 'ld) gps_l2cm_tracker_data_t"
  trace :: "'f event list"

definition emit :: "'f event list \<Rightarrow> ('f, 'tl, 'cn, 'ad, 'ld) st \<Rightarrow> ('f, 'tl, 'cn, 'ad, 'ld) st" where
  "emit es s = s\<lparr>trace := trace s @ es\<rparr>"

text \<open>The conversion of an \<open>s32\<close> to floating point.\<close>

definition s32_to_float :: "('f, 'tl, 'cn, 'ad, 'ld) externals \<Rightarrow> s32 \<Rightarrow> 'f" where
  "s32_to_float ext x = to_float ext (real_of_int (sint x))"

subsection \<open>\<open>tracker_gps_l2cm_init\<close> (lines 215-254)\<close>

text \<open>
  \<open>memset(data, 0, sizeof(gps_l2cm_tracker_data_t))\<close>: every field is zero, also the
  parts of the library structs this file does not name.
\<close>

definition zeroed_data ::
  "('f::zero, 'tl::zero, 'cn::zero, 'ad::zero, 'ld::zero) gps_l2cm_tracker_data_t" where
  "zeroed_data =
     \<lparr>tl_state = \<lparr>carr_freq = 0, code_freq = 0, carr_filt_y = 0, tl_internal = 0\<rparr>,
      cs = replicate 3 \<lparr>I = 0, Q = 0\<rparr>,
      cn0_est_st = 0,
      int_ms = 0,
      short_cycle = False,
      stage = 0,
      alias_detect = \<lparr>first_I = 0, first_Q = 0, ad_internal = 0\<rparr>,
      lock_detect_st = \<lparr>outp = False, outo = False, ld_internal = 0\<rparr>\<rparr>"

text \<open>
  The integer division \<open>L2C_ALIAS_DETECT_INTERVAL_MS / alias_detect_ms\<close> of line 251 is
  undefined for \<open>coherent_ms = 0\<close>: that is the error branch. The divisions
  \<open>1e3 / data->int_ms\<close> are floating-point divisions.
\<close>

definition tracker_gps_l2cm_init ::
  "('f::{zero,minus,times,inverse}, 'tl::zero, 'cn::zero, 'ad::zero, 'ld::zero) externals
   \<Rightarrow> 'f globals \<Rightarrow> 'f tracker_common_data_t
   \<Rightarrow> error + (('f, 'tl, 'cn, 'ad, 'ld) gps_l2cm_tracker_data_t \<times> 'f event list)" where
  "tracker_gps_l2cm_init ext g common_data =
    (let d0 = zeroed_data;
         l = loop_params_stage g;
         d1 = d0\<lparr>int_ms := coherent_ms l\<rparr>;
         loop_freq = to_float ext 1000 / to_float ext (real_of_int (uint (int_ms d1)));
         d2 = d1\<lparr>tl_state := aided_tl_init ext (tl_state d1) loop_freq
                 (code_phase_rate common_data - GPS_CA_CHIPPING_RATE ext)
                 (code_bw l) (code_zeta l) (code_k l)
                 (carr_to_code l)
                 (carrier_freq common_data)
                 (carr_bw l) (carr_zeta l) (carr_k l)
                 (carr_fll_aid_gain l)\<rparr>;
         d3 = d2\<lparr>short_cycle := True\<rparr>;
         d4 = d3\<lparr>cn0_est_st := cn0_est_init ext (cn0_est_st d3) loop_freq (cn0 common_data)
                 (to_float ext CN0_EST_LPF_CUTOFF) loop_freq\<rparr>;
         d5 = d4\<lparr>lock_detect_st := lock_detect_init ext (lock_detect_st d4)
                 (k1 (lock_detect_params g)) (k2 (lock_detect_params g))
                 (lp (lock_detect_params g)) (lo (lock_detect_params g))\<rparr>;
         alias_detect_ms = coherent_ms l
     in if alias_detect_ms = 0 then Inl Division_by_zero
        else Inr (d5\<lparr>alias_detect := alias_detect_init ext (alias_detect d5)
                     (word_of_int (L2C_ALIAS_DETECT_INTERVAL_MS div uint alias_detect_ms))
                     (to_float ext (real_of_int (uint alias_detect_ms - 1))
                        * to_float ext (1 / 1000))\<rparr>,
                  [Ambiguity_unknown]))"

subsection \<open>\<open>tracker_gps_l2cm_update\<close> (lines 265-400)\<close>

text \<open>Lines 286-289: the short cycle's correlations plus the long cycle's.\<close>

definition accumulate :: "corr_t list \<Rightarrow> corr_t list \<Rightarrow> corr_t list" where
  "accumulate dcs rcs =
     map (\<lambda>i. \<lparr>I = I (dcs ! i) + I (rcs ! i), Q = Q (dcs ! i) + Q (rcs ! i)\<rparr>) [0..<3]"

text \<open>Lines 271-290: the correlations are read; a short cycle keeps them as the alias
  detector's first sample, a long cycle adds them to the short cycle's.\<close>

definition read_stage ::
  "('f, 'tl, 'cn, 'ad, 'ld) externals \<Rightarrow> 'f tracker_context_t
   \<Rightarrow> ('f, 'tl, 'cn, 'ad, 'ld) st \<Rightarrow> ('f, 'tl, 'cn, 'ad, 'ld) st" where
  "read_stage ext ctx s =
    (let c = (common s)\<lparr>sample_count := rd_sample_count ctx,
                         code_phase_early := rd_code_phase_early ctx,
                         carrier_phase := rd_carrier_phase ctx\<rparr>;
         d = data s
     in if short_cycle d then
          (let d1 = d\<lparr>cs := rd_cs ctx\<rparr>;
               d2 = d1\<lparr>alias_detect := alias_detect_first ext (alias_detect d1)
                         (s32_to_float ext (I (cs d1 ! 1)))
                         (s32_to_float ext (Q (cs d1 ! 1)))\<rparr>
           in s\<lparr>common := c, data := d2, trace := trace s @ [Correlations_read]\<rparr>)
        else
          s\<lparr>common := c, data := d\<lparr>cs := accumulate (cs d) (rd_cs ctx)\<rparr>,
            trace := trace s @ [Correlations_read]\<rparr>)"

text \<open>Lines 292-295. The local \<open>int_ms\<close> is a \<open>u8\<close>: \<open>data->int_ms - 1\<close> wraps.\<close>

definition tow_stage ::
  "'f tracker_context_t \<Rightarrow> ('f, 'tl, 'cn, 'ad, 'ld) st \<Rightarrow> ('f, 'tl, 'cn, 'ad, 'ld) st" where
  "tow_stage ctx s =
    (let ms = (if short_cycle (data s) then 1 else int_ms (data s) - 1);
         tow = TOW_ms (common s)
     in s\<lparr>common := (common s)\<lparr>TOW_ms := tracker_tow_update ctx tow ms\<rparr>,
          trace := trace s @ [Tow_update tow ms]\<rparr>)"

text \<open>Lines 312-314.\<close>

definition count_stage :: "('f, 'tl, 'cn, 'ad, 'ld) st \<Rightarrow> ('f, 'tl, 'cn, 'ad, 'ld) st" where
  "count_stage s =
    (let d = data s;
         c = (common s)\<lparr>update_count := update_count (common s) + ucast (int_ms d)\<rparr>
     in s\<lparr>common := c, trace := trace s @ [Bit_sync_update (int_ms d) (I (cs d ! 1))]\<rparr>)"

text \<open>
  Lines 318-331, the C/N0 estimate. \<open>cs[1].I/data->int_ms\<close> divides an \<open>s32\<close> by an
  \<open>int\<close>: truncating division, undefined for \<open>int_ms = 0\<close>.
\<close>

definition cn0_stage ::
  "('f::ord, 'tl, 'cn, 'ad, 'ld) externals \<Rightarrow> 'f globals
   \<Rightarrow> ('f, 'tl, 'cn, 'ad, 'ld) st \<Rightarrow> error + ('f, 'tl, 'cn, 'ad, 'ld) st" where
  "cn0_stage ext g s =
    (let d = data s in
     if int_ms d = 0 then Inl Division_by_zero
     else
       (let (v, est) = cn0_est ext (cn0_est_st d)
                         (to_float ext (real_of_int (sint (I (cs d ! 1)) sdiv uint (int_ms d))))
                         (to_float ext (real_of_int (sint (Q (cs d ! 1)) sdiv uint (int_ms d))));
            s1 = s\<lparr>common := (common s)\<lparr>cn0 := v\<rparr>, data := d\<lparr>cn0_est_st := est\<rparr>\<rparr>;
            s2 = (if track_cn0_drop_thres g < cn0 (common s1)
                  then s1\<lparr>common := (common s1)\<lparr>cn0_above_drop_thres_count :=
                                                    update_count (common s1)\<rparr>\<rparr>
                  else s1);
            s3 = (if cn0 (common s2) < track_cn0_use_thres g
                  then s2\<lparr>common := (common s2)\<lparr>cn0_below_use_thres_count :=
                                                    update_count (common s2)\<rparr>,
                          trace := trace s2 @ [Ambiguity_unknown]\<rparr>
                  else s2)
        in Inr s3))"

text \<open>Lines 333-347, the phase-lock detector.\<close>

definition lock_stage ::
  "('f, 'tl, 'cn, 'ad, 'ld) externals
   \<Rightarrow> ('f, 'tl, 'cn, 'ad, 'ld) st \<Rightarrow> ('f, 'tl, 'cn, 'ad, 'ld) st" where
  "lock_stage ext s =
    (let d = data s;
         last_outp = outp (lock_detect_st d);
         d1 = d\<lparr>lock_detect_st := lock_detect_update ext (lock_detect_st d)
                   (s32_to_float ext (I (cs d ! 1))) (s32_to_float ext (Q (cs d ! 1)))
                   (to_float ext (real_of_int (uint (int_ms d))))\<rparr>;
         s1 = s\<lparr>data := d1\<rparr>;
         s2 = (if outo (lock_detect_st d1)
               then s1\<lparr>common := (common s1)\<lparr>ld_opti_locked_count :=
                                                 update_count (common s1)\<rparr>\<rparr>
               else s1);
         s3 = (if \<not> outp (lock_detect_st d1)
               then s2\<lparr>common := (common s2)\<lparr>ld_pess_unlocked_count :=
                                                 update_count (common s2)\<rparr>\<rparr>
               else s2)
     in if last_outp \<and> \<not> outp (lock_detect_st d1)
        then emit [Log_info ''PLL stress'', Ambiguity_unknown] s3
        else s3)"

text \<open>Lines 352-363: telemetry, then the loop filters on the reversed correlations.\<close>

definition filter_stage ::
  "('f::plus, 'tl, 'cn, 'ad, 'ld) externals
   \<Rightarrow> ('f, 'tl, 'cn, 'ad, 'ld) st \<Rightarrow> ('f, 'tl, 'cn, 'ad, 'ld) st" where
  "filter_stage ext s =
    (let d = data s;
         cs2 = map (\<lambda>i. \<lparr>I = s32_to_float ext (I (cs d ! (2 - i))),
                         Q = s32_to_float ext (Q (cs d ! (2 - i)))\<rparr>) [0..<3];
         tl = aided_tl_update ext (tl_state d) cs2
     in s\<lparr>common := (common s)\<lparr>carrier_freq := carr_freq tl,
                                 code_phase_rate := code_freq tl + GPS_CA_CHIPPING_RATE ext\<rparr>,
          data := d\<lparr>tl_state := tl\<rparr>,
          trace := trace s @ [Correlations_send (cs d)]\<rparr>)"

text \<open>
  Lines 367-384, alias detection. The error \<open>err\<close> that \<open>alias_detect_second\<close> returns
  is \<open>alias_err\<close>. The quotient by \<open>data->int_ms - 1\<close> (an \<open>int\<close>) converted to
  \<open>s32\<close> is undefined when the divisor is zero, and so is \<open>250 / data->int_ms\<close>.
\<close>

definition alias_second ::
  "('f::{minus,inverse}, 'tl, 'cn, 'ad, 'ld) externals
   \<Rightarrow> ('f, 'tl, 'cn, 'ad, 'ld) gps_l2cm_tracker_data_t \<Rightarrow> 'f \<times> ('f, 'ad) alias_detect_t" where
  "alias_second ext d =
    (let n = to_float ext (real_of_int (uint (int_ms d) - 1));
         I' = float_to_s32 ext ((s32_to_float ext (I (cs d ! 1)) - first_I (alias_detect d)) / n);
         Q' = float_to_s32 ext ((s32_to_float ext (Q (cs d ! 1)) - first_Q (alias_detect d)) / n)
     in alias_detect_second ext (alias_detect d) (s32_to_float ext I') (s32_to_float ext Q'))"

definition alias_err ::
  "('f::{minus,inverse}, 'tl, 'cn, 'ad, 'ld) externals
   \<Rightarrow> ('f, 'tl, 'cn, 'ad, 'ld) gps_l2cm_tracker_data_t \<Rightarrow> 'f" where
  "alias_err ext d = fst (alias_second ext d)"

definition alias_stage ::
  "('f::{plus,minus,inverse,abs,ord}, 'tl, 'cn, 'ad, 'ld) externals \<Rightarrow> 'f globals
   \<Rightarrow> ('f, 'tl, 'cn, 'ad, 'ld) st \<Rightarrow> error + ('f, 'tl, 'cn, 'ad, 'ld) st" where
  "alias_stage ext g s =
    (let d = data s in
     if use_alias_detection g \<and> (outp (lock_detect_st d) \<or> outo (lock_detect_st d)) then
       if uint (int_ms d) - 1 = 0 \<or> int_ms d = 0 then Inl Division_by_zero
       else
         (let (err, ad) = alias_second ext d;
              d1 = d\<lparr>alias_detect := ad\<rparr>
          in if to_float ext (real_of_int (250 div uint (int_ms d1))) < \<bar>err\<bar> then
               (let s1 = (if outp (lock_detect_st d1)
                          then emit [Log_warn ''False phase lock detected''] s else s);
                    s2 = emit [Ambiguity_unknown] s1;
                    s3 = s2\<lparr>common := (common s2)\<lparr>mode_change_count :=
                                                     update_count (common s2)\<rparr>\<rparr>;
                    f = carr_freq (tl_state d1) + err;
                    d2 = d1\<lparr>tl_state := (tl_state d1)\<lparr>carr_freq := f, carr_filt_y := f\<rparr>\<rparr>
                in Inr (s3\<lparr>data := d2\<rparr>))
             else Inr (s\<lparr>data := d1\<rparr>))
     else Inr s)"

text \<open>Lines 386-395.\<close>

definition sync_stage ::
  "'f tracker_context_t \<Rightarrow> ('f, 'tl, 'cn, 'ad, 'ld) st \<Rightarrow> ('f, 'tl, 'cn, 'ad, 'ld) st" where
  "sync_stage ctx s =
    (if outo (lock_detect_st (data s)) \<and> tracker_bit_aligned ctx
     then emit [Log_info ''synced'']
            (s\<lparr>common := (common s)\<lparr>mode_change_count := update_count (common s)\<rparr>\<rparr>)
     else s)"

text \<open>Lines 397-399. The last argument of \<open>tracker_retune\<close> is a \<open>u8\<close>.\<close>

definition retune_stage :: "('f, 'tl, 'cn, 'ad, 'ld) st \<Rightarrow> ('f, 'tl, 'cn, 'ad, 'ld) st" where
  "retune_stage s =
     emit [Retune (carrier_freq (common s)) (code_phase_rate (common s))
             (int_ms (data s) - 1)] s"

text \<open>The long cycle up to line 363, just before the alias detection.\<close>

definition pre_alias ::
  "('f::{plus,ord}, 'tl, 'cn, 'ad, 'ld) externals \<Rightarrow> 'f globals
   \<Rightarrow> ('f, 'tl, 'cn, 'ad, 'ld) st \<Rightarrow> error + ('f, 'tl, 'cn, 'ad, 'ld) st" where
  "pre_alias ext g s =
    (case cn0_stage ext g (count_stage s) of
       Inl e \<Rightarrow> Inl e
     | Inr s1 \<Rightarrow> Inr (filter_stage ext (lock_stage ext s1)))"

definition long_cycle ::
  "('f::{plus,minus,inverse,abs,ord}, 'tl, 'cn, 'ad, 'ld) externals \<Rightarrow> 'f globals
   \<Rightarrow> 'f tracker_context_t
   \<Rightarrow> ('f, 'tl, 'cn, 'ad, 'ld) st \<Rightarrow> error + ('f, 'tl, 'cn, 'ad, 'ld) st" where
  "long_cycle ext g ctx s =
    (case pre_alias ext g s of
       Inl e \<Rightarrow> Inl e
     | Inr s1 \<Rightarrow>
        (case alias_stage ext g s1 of
           Inl e \<Rightarrow> Inl e
         | Inr s2 \<Rightarrow> Inr (retune_stage (sync_stage ctx s2))))"

text \<open>Lines 302-310: the flag is negated; a short cycle flushes the hardware and returns.\<close>

definition toggle_stage :: "('f, 'tl, 'cn, 'ad, 'ld) st \<Rightarrow> ('f, 'tl, 'cn, 'ad, 'ld) st" where
  "toggle_stage s = s\<lparr>data := (data s)\<lparr>short_cycle := \<not> short_cycle (data s)\<rparr>\<rparr>"

definition tracker_gps_l2cm_update ::
  "('f::{plus,minus,inverse,abs,ord}, 'tl, 'cn, 'ad, 'ld) externals \<Rightarrow> 'f globals
   \<Rightarrow> 'f tracker_context_t
   \<Rightarrow> ('f, 'tl, 'cn, 'ad, 'ld) st \<Rightarrow> error + ('f, 'tl, 'cn, 'ad, 'ld) st" where
  "tracker_gps_l2cm_update ext g ctx s =
    (let s1 = tow_stage ctx (read_stage ext ctx s);
         short = short_cycle (data s1);
         s2 = toggle_stage s1
     in if short
        then Inr (emit [Retune (carrier_freq (common s2)) (code_phase_rate (common s2)) 0] s2)
        else long_cycle ext g ctx s2)"

text \<open>Two points inside a long cycle that the properties refer to: the state after line
  314, when the correlations are accumulated and the counter is advanced, and the state
  after line 363, just before the alias detection.\<close>

definition long_entry ::
  "('f, 'tl, 'cn, 'ad, 'ld) externals \<Rightarrow> 'f tracker_context_t
   \<Rightarrow> ('f, 'tl, 'cn, 'ad, 'ld) st \<Rightarrow> ('f, 'tl, 'cn, 'ad, 'ld) st" where
  "long_entry ext ctx s = count_stage (toggle_stage (tow_stage ctx (read_stage ext ctx s)))"

definition before_alias ::
  "('f::{plus,ord}, 'tl, 'cn, 'ad, 'ld) externals \<Rightarrow> 'f globals \<Rightarrow> 'f tracker_context_t
   \<Rightarrow> ('f, 'tl, 'cn, 'ad, 'ld) st \<Rightarrow> error + ('f, 'tl, 'cn, 'ad, 'ld) st" where
  "before_alias ext g ctx s =
     pre_alias ext g (toggle_stage (tow_stage ctx (read_stage ext ctx s)))"

text \<open>A channel driven through a sequence of calls, each with its own configuration and
  hardware input; the first error ends the run.\<close>

fun updates ::
  "('f::{plus,minus,inverse,abs,ord}, 'tl, 'cn, 'ad, 'ld) externals
   \<Rightarrow> ('f globals \<times> 'f tracker_context_t) list
   \<Rightarrow> ('f, 'tl, 'cn, 'ad, 'ld) st \<Rightarrow> error + ('f, 'tl, 'cn, 'ad, 'ld) st" where
  "updates ext [] s = Inr s"
| "updates ext (x # xs) s =
     (case tracker_gps_l2cm_update ext (fst x) (snd x) s of
        Inl e \<Rightarrow> Inl e
      | Inr s' \<Rightarrow> updates ext xs s')"

subsection \<open>The settings parsers (lines 410-473)\<close>

text \<open>
  A \<open>struct setting\<close>: \<open>addr\<close> is the memory its pointer refers to, \<open>len\<close> the
  capacity registered with it (the \<open>sizeof\<close> of the variable, so \<open>len = length addr\<close>
  for a registered setting). \<open>strncpy\<close> is the function of the C library: it copies the
  characters of the source up to its terminator and fills the rest of the \<open>n\<close> bytes with
  zeros.
\<close>

record setting =
  addr :: "char list"
  len :: nat

definition strncpy :: "char list \<Rightarrow> string \<Rightarrow> nat \<Rightarrow> char list" where
  "strncpy dest src n =
     (let str = takeWhile (\<lambda>c. c \<noteq> CHR 0x00) src
      in take n (str @ replicate n (CHR 0x00)) @ drop n dest)"

text \<open>Lines 437-441 and 465-469.\<close>

definition save_string :: "setting \<Rightarrow> string \<Rightarrow> setting" where
  "save_string s val =
     (let a = strncpy (addr s) val (len s)
      in s\<lparr>addr := (if 0 < len s then a[len s - 1 := CHR 0x00] else a)\<rparr>)"

definition parse_loop_params ::
  "('f, 'tl, 'cn, 'ad, 'ld) externals \<Rightarrow> setting \<Rightarrow> string \<Rightarrow> 'f globals
   \<Rightarrow> bool \<times> setting \<times> 'f globals \<times> 'f event list" where
  "parse_loop_params ext s val g =
    (let (n, tmp, loop_params_parse) = sscanf_loop_params ext val
     in if n < 9 then
          (False, s, g, [Log_error ''Ill-formatted tracking loop param string''])
        else
          (let l = loop_params_parse\<lparr>coherent_ms := ucast tmp\<rparr>
           in if coherent_ms l \<noteq> L2C_COHERENT_INTEGRATION_TIME_MS then
                (False, s, g, [Log_error ''Invalid coherent integration length for L2CM''])
              else (True, save_string s val, g\<lparr>loop_params_stage := l\<rparr>, [])))"

definition parse_lock_detect_params ::
  "('f, 'tl, 'cn, 'ad, 'ld) externals \<Rightarrow> setting \<Rightarrow> string \<Rightarrow> 'f globals
   \<Rightarrow> bool \<times> setting \<times> 'f globals \<times> 'f event list" where
  "parse_lock_detect_params ext s val g =
    (let (n, p) = sscanf_lock_detect_params ext val
     in if n < 4 then
          (False, s, g, [Log_error ''Ill-formatted lock detect param string''])
        else (True, save_string s val, g\<lparr>lock_detect_params := p\<rparr>, []))"

subsection \<open>\<open>do_l1ca_to_l2cm_handover\<close> (lines 150-213)\<close>

datatype code_t = CODE_GPS_L1CA | CODE_GPS_L2CM

record gnss_signal_t =
  sat :: u16
  code :: code_t

text \<open>
  Modelled from the spec: a slot of the tracking channel pool, which lives in the tracking
  core of the firmware and is not among the sources at hand. It has an \<open>active\<close> flag,
  the signal it owns and the state it was seeded with (sample count, code phase, carrier
  frequency, C/N0, elevation).
\<close>

record 'f tracker_channel_t =
  active :: bool
  ch_sid :: gnss_signal_t
  ch_sample_count :: u32
  ch_code_phase :: 'f
  ch_carrier_freq :: 'f
  ch_cn0 :: 'f
  ch_elevation :: s8

text \<open>
  Modelled from the spec: a slot of the decoder-channel collaborator, with an
  \<open>active\<close> flag and the signal it owns.
\<close>

record decoder_channel_t =
  dec_active :: bool
  dec_sid :: gnss_signal_t

text \<open>
  Modelled from the spec: the state the handover acts on. The two pools are fixed-size
  arrays of slots; \<open>nap_track_n_channels\<close> and the free-running timing counter
  \<open>nap_timing_count\<close> come from the hardware; \<open>logged\<close> collects the log calls.
\<close>

record 'f receiver =
  tracker_channels :: "'f tracker_channel_t list"
  decoder_channels :: "decoder_channel_t list"
  nap_track_n_channels :: u8
  nap_timing_count :: u32
  logged :: "'f event list"

text \<open>
  Modelled from the spec: \<open>tracker_channel_available\<close>, the availability check of a
  tracking slot, which queries the slot's \<open>active\<close> flag. A slot outside the pool is
  not available.
\<close>

definition tracker_channel_available :: "'f receiver \<Rightarrow> nat \<Rightarrow> gnss_signal_t \<Rightarrow> bool" where
  "tracker_channel_available r i sid =
     (i < length (tracker_channels r) \<and> \<not> active (tracker_channels r ! i))"

text \<open>
  Modelled from the spec: \<open>decoder_channel_available\<close>, the availability check of the
  decoder-channel collaborator.
\<close>

definition decoder_channel_available :: "'f receiver \<Rightarrow> nat \<Rightarrow> gnss_signal_t \<Rightarrow> bool" where
  "decoder_channel_available r i sid =
     (i < length (decoder_channels r) \<and> \<not> dec_active (decoder_channels r ! i))"

text \<open>
  Modelled from the spec: \<open>tracker_channel_init\<close>, which initialises a free tracking
  slot from the snapshot it is given and reports failure on a slot that is not free.
\<close>

definition tracker_channel_init ::
  "'f receiver \<Rightarrow> nat \<Rightarrow> gnss_signal_t \<Rightarrow> u32 \<Rightarrow> 'f \<Rightarrow> 'f \<Rightarrow> 'f \<Rightarrow> s8 \<Rightarrow> bool \<times> 'f receiver" where
  "tracker_channel_init r i sid ref_sample_count code_phase carrier_freq' cn0_init elevation =
     (if tracker_channel_available r i sid then
        (True, r\<lparr>tracker_channels := (tracker_channels r)
                  [i := \<lparr>active = True, ch_sid = sid, ch_sample_count = ref_sample_count,
                         ch_code_phase = code_phase, ch_carrier_freq = carrier_freq',
                         ch_cn0 = cn0_init, ch_elevation = elevation\<rparr>]\<rparr>)
      else (False, r))"

text \<open>
  Modelled from the spec: \<open>decoder_channel_init\<close>, the init-by-SignalId of the
  decoder-channel collaborator.
\<close>

definition decoder_channel_init :: "'f receiver \<Rightarrow> nat \<Rightarrow> gnss_signal_t \<Rightarrow> bool \<times> 'f receiver" where
  "decoder_channel_init r i sid =
     (if decoder_channel_available r i sid then
        (True, r\<lparr>decoder_channels := (decoder_channels r)
                  [i := \<lparr>dec_active = True, dec_sid = sid\<rparr>]\<rparr>)
      else (False, r))"

text \<open>
  Modelled from the spec: \<open>tracking_channel_carrier_freq_get\<close>, which reads the
  carrier frequency (the Doppler) of the parent channel's slot.
\<close>

definition tracking_channel_carrier_freq_get :: "'f receiver \<Rightarrow> u8 \<Rightarrow> 'f" where
  "tracking_channel_carrier_freq_get r nap_channel =
     ch_carrier_freq (tracker_channels r ! unat nap_channel)"

text \<open>
  Modelled from the spec: \<open>tracking_channel_cn0_get\<close>, which reads the C/N0 of the
  parent channel's slot.
\<close>

definition tracking_channel_cn0_get :: "'f receiver \<Rightarrow> u8 \<Rightarrow> 'f" where
  "tracking_channel_cn0_get r nap_channel = ch_cn0 (tracker_channels r ! unat nap_channel)"

text \<open>
  Modelled from the spec: \<open>tracking_channel_evelation_degrees_get\<close>, which reads the
  elevation of the parent channel's slot.
\<close>

definition tracking_channel_evelation_degrees_get :: "'f receiver \<Rightarrow> u8 \<Rightarrow> s8" where
  "tracking_channel_evelation_degrees_get r nap_channel =
     ch_elevation (tracker_channels r ! unat nap_channel)"

text \<open>
  Lines 170-178: the scan for the first index with both slots free, from index \<open>i\<close> on;
  \<open>-1\<close> when there is none. The index is a \<open>u8\<close> below \<open>nap_track_n_channels\<close>,
  so it does not wrap.
\<close>

function scan_channels :: "'f receiver \<Rightarrow> gnss_signal_t \<Rightarrow> nat \<Rightarrow> int" where
  "scan_channels r sid i =
     (if i < unat (nap_track_n_channels r) then
        (if tracker_channel_available r i sid \<and> decoder_channel_available r i sid
         then int i
         else scan_channels r sid (i + 1))
      else - 1)"
  by pat_completeness auto
termination
  by (relation "measure (\<lambda>(r, sid, i). unat (nap_track_n_channels r) - i)") auto

text \<open>
  The capability word is the constant \<open>~0\<close> of line 157. \<open>(u32)1 << sat\<close> is defined
  for \<open>sat < 32\<close> only; \<open>push_bit\<close> gives 0 beyond.
\<close>

definition do_l1ca_to_l2cm_handover ::
  "('f::{times,inverse}, 'tl, 'cn, 'ad, 'ld) externals \<Rightarrow> 'f receiver
   \<Rightarrow> u16 \<Rightarrow> u8 \<Rightarrow> 'f \<Rightarrow> 'f receiver" where
  "do_l1ca_to_l2cm_handover ext r sat' nap_channel code_phase =
    (let l2c_cpbl = (NOT 0 :: u32) in
     if l2c_cpbl AND push_bit (unat sat') 1 = 0 then
       r\<lparr>logged := logged r @ [Log_info ''SV does not support L2C signal'']\<rparr>
     else
       (let sid = \<lparr>sat = sat', code = CODE_GPS_L2CM\<rparr>;
            l2cm_channel_id = scan_channels r sid 0
        in if l2cm_channel_id = - 1 then
             r\<lparr>logged := logged r @ [Log_warn ''No free channel for L2 CM tracking'']\<rparr>
           else
             (let ref_sample_count = nap_timing_count r;
                  carrier_freq' = tracking_channel_carrier_freq_get r nap_channel
                                    * GPS_L2_HZ ext / GPS_L1_HZ ext;
                  r0 = r\<lparr>logged := logged r @ [Log_debug ''L2C Dopp'']\<rparr>;
                  cn0_init = tracking_channel_cn0_get r0 nap_channel;
                  elevation = tracking_channel_evelation_degrees_get r0 nap_channel;
                  (ok, r1) = tracker_channel_init r0 (nat l2cm_channel_id) sid
                               ref_sample_count code_phase carrier_freq' cn0_init elevation;
                  r2 = r1\<lparr>logged := logged r1 @
                         [if \<not> ok then Log_error ''tracker channel init for L2 CM failed''
                          else Log_info ''L2 CM handover done'']\<rparr>;
                  (ok', r3) = decoder_channel_init r2 (nat l2cm_channel_id) sid
              in if \<not> ok' then
                   r3\<lparr>logged := logged r3 @ [Log_error ''decoder channel init for L2 CM failed'']\<rparr>
                 else r3)))"

subsection \<open>A test instance\<close>

text \<open>
  Concrete inputs on which the definitions are run. Floating point is instantiated with the
  reals and the library functions with test doubles: the C/N0 estimator returns \<open>v\<close>,
  the lock detector moves to \<open>ld\<close>, the alias detector reports the error \<open>err\<close>, the
  loop filter leaves its state as it is, and \<open>sscanf\<close> knows three strings.
\<close>

definition LOOP_PARAMS_MED :: string where
  "LOOP_PARAMS_MED = ''(20 ms, (1, 0.7, 1, 1200), (13, 0.7, 1, 5))''"

definition LD_PARAMS :: string where
  "LD_PARAMS = ''0.0247, 1.5, 50, 240''"

definition med_loop_params :: "real loop_params_t" where
  "med_loop_params =
     \<lparr>code_bw = 1, code_zeta = 7 / 10, code_k = 1, carr_to_code = 1200,
      carr_bw = 13, carr_zeta = 7 / 10, carr_k = 1, carr_fll_aid_gain = 5,
      coherent_ms = 0\<rparr>"

definition test_sscanf_loop_params :: "string \<Rightarrow> int \<times> u32 \<times> real loop_params_t" where
  "test_sscanf_loop_params val =
     (if val = ''(20 ms, (1, 0.7, 1, 1200), (13, 0.7, 1, 5))'' then (9, 20, med_loop_params)
      else if val = ''(10 ms, (1, 0.7, 1, 1200), (13, 0.7, 1, 5))'' then (9, 10, med_loop_params)
      else if val = ''(276 ms, (1, 0.7, 1, 1200), (13, 0.7, 1, 5))'' then (9, 276, med_loop_params)
      else (0, 0, med_loop_params))"

definition test_sscanf_lock_detect_params :: "string \<Rightarrow> int \<times> real lock_detect_params_t" where
  "test_sscanf_lock_detect_params val =
     (if val = ''0.0247, 1.5, 50, 240''
      then (4, \<lparr>k1 = 247 / 10000, k2 = 3 / 2, lp = 50, lo = 240\<rparr>)
      else (0, \<lparr>k1 = 0, k2 = 0, lp = 0, lo = 0\<rparr>))"

definition test_externals ::
  "real \<Rightarrow> nat lock_detect_t \<Rightarrow> real \<Rightarrow> (real, nat, nat, nat, nat) externals" where
  "test_externals v ld err =
     \<lparr>to_float = (\<lambda>x. x),
      float_to_s32 = (\<lambda>x. word_of_int \<lfloor>x\<rfloor>),
      GPS_CA_CHIPPING_RATE = 1023000,
      GPS_L1_HZ = 1575420000,
      GPS_L2_HZ = 1227600000,
      sscanf_loop_params = test_sscanf_loop_params,
      sscanf_lock_detect_params = test_sscanf_lock_detect_params,
      aided_tl_init = (\<lambda>tl loop_freq code_freq' cbw cz ck c2c carr_freq' rbw rz rk fll.
                         tl\<lparr>carr_freq := carr_freq', code_freq := code_freq',
                            carr_filt_y := carr_freq'\<rparr>),
      aided_tl_update = (\<lambda>tl cs2. tl),
      cn0_est_init = (\<lambda>est loop_freq cn0_0 cutoff loop_freq'. est),
      cn0_est = (\<lambda>est i q. (v, est)),
      lock_detect_init = (\<lambda>l k1' k2' lp' lo'. l),
      lock_detect_update = (\<lambda>l i q dt. ld),
      alias_detect_init = (\<lambda>a acc_len dt. a),
      alias_detect_first = (\<lambda>a i q. a\<lparr>first_I := i, first_Q := q\<rparr>),
      alias_detect_second = (\<lambda>a i q. (err, a))\<rparr>"

definition test_globals :: "real globals" where
  "test_globals =
     \<lparr>loop_params_stage = med_loop_params\<lparr>coherent_ms := 20\<rparr>,
      lock_detect_params = \<lparr>k1 = 247 / 10000, k2 = 3 / 2, lp = 50, lo = 240\<rparr>,
      track_cn0_use_thres = 31,
      track_cn0_drop_thres = 31,
      use_alias_detection = True\<rparr>"

definition test_common :: "real tracker_common_data_t" where
  "test_common =
     \<lparr>update_count = 1000, mode_change_count = 20, cn0_below_use_thres_count = 0,
      cn0_above_drop_thres_count = 980, ld_opti_locked_count = 980,
      ld_pess_unlocked_count = 400, TOW_ms = 345600000, sample_count = 16368000,
      code_phase_early = 0, code_phase_rate = 1023000, carrier_phase = 0,
      carrier_freq = 1500, cn0 = 40\<rparr>"

text \<open>A channel at the start of a short cycle, and the same channel at the start of the
  long cycle that follows, with pessimistic and optimistic lock.\<close>

definition test_data_short :: "(real, nat, nat, nat, nat) gps_l2cm_tracker_data_t" where
  "test_data_short =
     \<lparr>tl_state = \<lparr>carr_freq = 1500, code_freq = 0, carr_filt_y = 1500, tl_internal = 0\<rparr>,
      cs = [\<lparr>I = 0, Q = 0\<rparr>, \<lparr>I = 0, Q = 0\<rparr>, \<lparr>I = 0, Q = 0\<rparr>],
      cn0_est_st = 0, int_ms = 20, short_cycle = True, stage = 0,
      alias_detect = \<lparr>first_I = 0, first_Q = 0, ad_internal = 0\<rparr>,
      lock_detect_st = \<lparr>outp = True, outo = True, ld_internal = 0\<rparr>\<rparr>"

definition test_data_long :: "(real, nat, nat, nat, nat) gps_l2cm_tracker_data_t" where
  "test_data_long =
     test_data_short\<lparr>cs := [\<lparr>I = 60, Q = 4\<rparr>, \<lparr>I = 100, Q = 5\<rparr>, \<lparr>I = 50, Q = - 3\<rparr>],
                     alias_detect := \<lparr>first_I = 100, first_Q = 5, ad_internal = 0\<rparr>,
                     short_cycle := False\<rparr>"

definition test_short :: "(real, nat, nat, nat, nat) st" where
  "test_short = \<lparr>common = test_common, data = test_data_short, trace = []\<rparr>"

definition test_long :: "(real, nat, nat, nat, nat) st" where
  "test_long = \<lparr>common = test_common, data = test_data_long, trace = []\<rparr>"

definition test_context :: "corr_t list \<Rightarrow> bool \<Rightarrow> real tracker_context_t" where
  "test_context rd aligned =
     \<lparr>rd_cs = rd, rd_sample_count = 16384368, rd_code_phase_early = 1 / 2,
      rd_carrier_phase = 1 / 4,
      tracker_tow_update = (\<lambda>tow ms. tow + ucast ms),
      tracker_bit_aligned = aligned\<rparr>"

definition test_read_short :: "corr_t list" where
  "test_read_short = [\<lparr>I = 60, Q = 4\<rparr>, \<lparr>I = 100, Q = 5\<rparr>, \<lparr>I = 50, Q = - 3\<rparr>]"

definition test_read_long :: "corr_t list" where
  "test_read_long = [\<lparr>I = 1100, Q = 70\<rparr>, \<lparr>I = 1900, Q = - 90\<rparr>, \<lparr>I = 1000, Q = 60\<rparr>]"

definition locked :: "nat lock_detect_t" where
  "locked = \<lparr>outp = True, outo = True, ld_internal = 0\<rparr>"

definition unlocked :: "nat lock_detect_t" where
  "unlocked = \<lparr>outp = False, outo = False, ld_internal = 0\<rparr>"

definition test_loop_params_setting :: setting where
  "test_loop_params_setting =
     \<lparr>addr = LOOP_PARAMS_MED @ replicate (120 - length LOOP_PARAMS_MED) (CHR 0x00), len = 120\<rparr>"

definition test_lock_detect_setting :: setting where
  "test_lock_detect_setting =
     \<lparr>addr = LD_PARAMS @ replicate (24 - length LD_PARAMS) (CHR 0x00), len = 24\<rparr>"

text \<open>A pool of three channel pairs: channel 0 tracks L1 C/A of satellite 7 with bit sync,
  channel 1 is busy with another satellite, channel 2 is free.\<close>

definition test_receiver :: "real receiver" where
  "test_receiver =
     \<lparr>tracker_channels =
        [\<lparr>active = True, ch_sid = \<lparr>sat = 7, code = CODE_GPS_L1CA\<rparr>, ch_sample_count = 5000,
          ch_code_phase = 12, ch_carrier_freq = 1575420, ch_cn0 = 42, ch_elevation = 30\<rparr>,
         \<lparr>active = True, ch_sid = \<lparr>sat = 9, code = CODE_GPS_L1CA\<rparr>, ch_sample_count = 6000,
          ch_code_phase = 0, ch_carrier_freq = - 800, ch_cn0 = 38, ch_elevation = 12\<rparr>,
         \<lparr>active = False, ch_sid = \<lparr>sat = 0, code = CODE_GPS_L1CA\<rparr>, ch_sample_count = 0,
          ch_code_phase = 0, ch_carrier_freq = 0, ch_cn0 = 0, ch_elevation = 0\<rparr>],
      decoder_channels =
        [\<lparr>dec_active = True, dec_sid = \<lparr>sat = 7, code = CODE_GPS_L1CA\<rparr>\<rparr>,
         \<lparr>dec_active = True, dec_sid = \<lparr>sat = 9, code = CODE_GPS_L1CA\<rparr>\<rparr>,
         \<lparr>dec_active = False, dec_sid = \<lparr>sat = 0, code = CODE_GPS_L1CA\<rparr>\<rparr>],
      nap_track_n_channels = 3,
      nap_timing_count = 777000,
      logged = []\<rparr>"

text \<open>The same pool with the decode slot of channel 2 taken: no pair is free.\<close>

definition test_receiver_full :: "real receiver" where
  "test_receiver_full =
     test_receiver\<lparr>decoder_channels := (decoder_channels test_receiver)
        [2 := \<lparr>dec_active = True, dec_sid = \<lparr>sat = 3, code = CODE_GPS_L1CA\<rparr>\<rparr>]\<rparr>"

section \<open>Properties of the update function\<close>

subsection \<open>The stages, one by one\<close>

lemma update_short:
  assumes "short_cycle (data s)"
  shows "tracker_gps_l2cm_update ext g ctx s =
    Inr (s\<lparr>common := (common s)\<lparr>sample_count := rd_sample_count ctx,
                code_phase_early := rd_code_phase_early ctx,
                carrier_phase := rd_carrier_phase ctx,
                TOW_ms := tracker_tow_update ctx (TOW_ms (common s)) 1\<rparr>,
            data := (data s)\<lparr>cs := rd_cs ctx,
                alias_detect := alias_detect_first ext (alias_detect (data s))
                   (s32_to_float ext (I (rd_cs ctx ! 1))) (s32_to_float ext (Q (rd_cs ctx ! 1))),
                short_cycle := False\<rparr>,
            trace := trace s @ [Correlations_read, Tow_update (TOW_ms (common s)) 1,
                       Retune (carrier_freq (common s)) (code_phase_rate (common s)) 0]\<rparr>)"
  using assms
  by (simp add: tracker_gps_l2cm_update_def read_stage_def tow_stage_def toggle_stage_def
      emit_def Let_def)

lemma long_entry_data:
  "\<not> short_cycle (data s) \<Longrightarrow>
   data (long_entry ext ctx s) =
     (data s)\<lparr>cs := accumulate (cs (data s)) (rd_cs ctx), short_cycle := True\<rparr>"
  by (simp add: long_entry_def count_stage_def toggle_stage_def tow_stage_def read_stage_def
      Let_def)

lemma long_entry_common:
  "\<not> short_cycle (data s) \<Longrightarrow>
   common (long_entry ext ctx s) =
     (common s)\<lparr>sample_count := rd_sample_count ctx,
                code_phase_early := rd_code_phase_early ctx,
                carrier_phase := rd_carrier_phase ctx,
                TOW_ms := tracker_tow_update ctx (TOW_ms (common s)) (int_ms (data s) - 1),
                update_count := update_count (common s) + ucast (int_ms (data s))\<rparr>"
  by (simp add: long_entry_def count_stage_def toggle_stage_def tow_stage_def read_stage_def
      Let_def)

lemma long_entry_trace:
  "\<not> short_cycle (data s) \<Longrightarrow>
   trace (long_entry ext ctx s) =
     trace s @ [Correlations_read, Tow_update (TOW_ms (common s)) (int_ms (data s) - 1),
                Bit_sync_update (int_ms (data s)) (I (accumulate (cs (data s)) (rd_cs ctx) ! 1))]"
  by (simp add: long_entry_def count_stage_def toggle_stage_def tow_stage_def read_stage_def
      Let_def)

lemma cn0_stage_returns:
  "int_ms (data s) \<noteq> 0 \<Longrightarrow> \<exists>s'. cn0_stage ext g s = Inr s'"
  by (simp add: cn0_stage_def Let_def split: prod.splits)

lemma cn0_stage_nonzero:
  "cn0_stage ext g s = Inr s' \<Longrightarrow> int_ms (data s) \<noteq> 0"
  by (simp add: cn0_stage_def Let_def split: if_splits)

lemma cn0_stage_data:
  assumes "cn0_stage ext g s = Inr s'"
  shows "int_ms (data s') = int_ms (data s)"
    and "short_cycle (data s') = short_cycle (data s)"
    and "cs (data s') = cs (data s)"
    and "lock_detect_st (data s') = lock_detect_st (data s)"
    and "tl_state (data s') = tl_state (data s)"
    and "alias_detect (data s') = alias_detect (data s)"
  using assms
  by (auto simp add: cn0_stage_def Let_def split: if_splits prod.splits)

lemma cn0_stage_common:
  assumes "cn0_stage ext g s = Inr s'"
  shows "update_count (common s') = update_count (common s)"
    and "cn0 (common s') = fst (cn0_est ext (cn0_est_st (data s))
           (to_float ext (real_of_int (sint (I (cs (data s) ! 1)) sdiv uint (int_ms (data s)))))
           (to_float ext (real_of_int (sint (Q (cs (data s) ! 1)) sdiv uint (int_ms (data s))))))"
    and "track_cn0_drop_thres g < cn0 (common s') \<Longrightarrow>
           cn0_above_drop_thres_count (common s') = update_count (common s)"
    and "cn0 (common s') < track_cn0_use_thres g \<Longrightarrow>
           cn0_below_use_thres_count (common s') = update_count (common s)"
  using assms
  by (auto simp add: cn0_stage_def Let_def split: if_splits prod.splits)

lemma cn0_stage_trace:
  assumes "cn0_stage ext g s = Inr s'"
  shows "trace s' = trace s @
           (if cn0 (common s') < track_cn0_use_thres g then [Ambiguity_unknown] else [])"
  using assms
  by (auto simp add: cn0_stage_def Let_def split: if_splits prod.splits)

lemma lock_stage_data:
  "data (lock_stage ext s) =
     (data s)\<lparr>lock_detect_st := lock_detect_update ext (lock_detect_st (data s))
        (s32_to_float ext (I (cs (data s) ! 1))) (s32_to_float ext (Q (cs (data s) ! 1)))
        (to_float ext (real_of_int (uint (int_ms (data s)))))\<rparr>"
  by (simp add: lock_stage_def Let_def emit_def)

lemma lock_stage_common:
  "update_count (common (lock_stage ext s)) = update_count (common s)"
  "cn0 (common (lock_stage ext s)) = cn0 (common s)"
  "cn0_above_drop_thres_count (common (lock_stage ext s)) = cn0_above_drop_thres_count (common s)"
  "cn0_below_use_thres_count (common (lock_stage ext s)) = cn0_below_use_thres_count (common s)"
  "\<not> outp (lock_detect_st (data (lock_stage ext s))) \<Longrightarrow>
     ld_pess_unlocked_count (common (lock_stage ext s)) = update_count (common s)"
  "outo (lock_detect_st (data (lock_stage ext s))) \<Longrightarrow>
     ld_opti_locked_count (common (lock_stage ext s)) = update_count (common s)"
  by (simp_all add: lock_stage_data) (simp_all add: lock_stage_def Let_def emit_def)

lemma lock_stage_trace:
  "trace (lock_stage ext s) = trace s @
     (if outp (lock_detect_st (data s)) \<and> \<not> outp (lock_detect_st (data (lock_stage ext s)))
      then [Log_info ''PLL stress'', Ambiguity_unknown] else [])"
  by (simp add: lock_stage_data) (simp add: lock_stage_def Let_def emit_def)

lemma filter_stage_data:
  "data (filter_stage ext s) =
     (data s)\<lparr>tl_state := aided_tl_update ext (tl_state (data s))
        (map (\<lambda>i. \<lparr>I = s32_to_float ext (I (cs (data s) ! (2 - i))),
                    Q = s32_to_float ext (Q (cs (data s) ! (2 - i)))\<rparr>) [0..<3])\<rparr>"
  by (simp add: filter_stage_def Let_def)

lemma filter_stage_common:
  "common (filter_stage ext s) =
     (common s)\<lparr>carrier_freq := carr_freq (tl_state (data (filter_stage ext s))),
                code_phase_rate := code_freq (tl_state (data (filter_stage ext s)))
                                     + GPS_CA_CHIPPING_RATE ext\<rparr>"
  by (simp add: filter_stage_def Let_def)

lemma filter_stage_trace:
  "trace (filter_stage ext s) = trace s @ [Correlations_send (cs (data s))]"
  by (simp add: filter_stage_def Let_def)

lemma uint_is_one: "uint (w::'a::len word) = 1 \<longleftrightarrow> w = 1"
  by (metis uint_1 word_uint_eq_iff)

lemma alias_stage_returns:
  "int_ms (data s) \<noteq> 0 \<Longrightarrow> int_ms (data s) \<noteq> 1 \<Longrightarrow> \<exists>s'. alias_stage ext g s = Inr s'"
  by (simp add: alias_stage_def Let_def uint_is_one split: prod.splits)

lemma alias_stage_Inr:
  assumes "alias_stage ext g s = Inr s'"
  shows "int_ms (data s') = int_ms (data s)"
    and "short_cycle (data s') = short_cycle (data s)"
    and "cs (data s') = cs (data s)"
    and "lock_detect_st (data s') = lock_detect_st (data s)"
    and "update_count (common s') = update_count (common s)"
    and "cn0 (common s') = cn0 (common s)"
    and "carrier_freq (common s') = carrier_freq (common s)"
    and "code_phase_rate (common s') = code_phase_rate (common s)"
    and "cn0_above_drop_thres_count (common s') = cn0_above_drop_thres_count (common s)"
    and "cn0_below_use_thres_count (common s') = cn0_below_use_thres_count (common s)"
    and "ld_pess_unlocked_count (common s') = ld_pess_unlocked_count (common s)"
    and "ld_opti_locked_count (common s') = ld_opti_locked_count (common s)"
    and "\<exists>es. trace s' = trace s @ es"
  using assms
  by (auto simp add: alias_stage_def Let_def emit_def split: if_splits prod.splits)

lemma alias_stage_fires:
  assumes "alias_stage ext g s = Inr s'"
    and "use_alias_detection g"
    and "outp (lock_detect_st (data s)) \<or> outo (lock_detect_st (data s))"
    and "to_float ext (real_of_int (250 div uint (int_ms (data s)))) < \<bar>alias_err ext (data s)\<bar>"
  shows "trace s' = trace s @
           (if outp (lock_detect_st (data s)) then [Log_warn ''False phase lock detected''] else [])
           @ [Ambiguity_unknown]"
    and "mode_change_count (common s') = update_count (common s)"
    and "carr_freq (tl_state (data s')) = carr_freq (tl_state (data s)) + alias_err ext (data s)"
    and "carr_filt_y (tl_state (data s')) = carr_freq (tl_state (data s)) + alias_err ext (data s)"
  using assms
  by (auto simp add: alias_stage_def alias_err_def Let_def emit_def split: if_splits prod.splits)

lemma sync_stage_data: "data (sync_stage ctx s) = data s"
  by (simp add: sync_stage_def emit_def)

lemma sync_stage_common:
  "update_count (common (sync_stage ctx s)) = update_count (common s)"
  "cn0 (common (sync_stage ctx s)) = cn0 (common s)"
  "carrier_freq (common (sync_stage ctx s)) = carrier_freq (common s)"
  "code_phase_rate (common (sync_stage ctx s)) = code_phase_rate (common s)"
  "cn0_above_drop_thres_count (common (sync_stage ctx s)) = cn0_above_drop_thres_count (common s)"
  "cn0_below_use_thres_count (common (sync_stage ctx s)) = cn0_below_use_thres_count (common s)"
  "ld_pess_unlocked_count (common (sync_stage ctx s)) = ld_pess_unlocked_count (common s)"
  "ld_opti_locked_count (common (sync_stage ctx s)) = ld_opti_locked_count (common s)"
  "mode_change_count (common s) = update_count (common s) \<Longrightarrow>
     mode_change_count (common (sync_stage ctx s)) = update_count (common s)"
  by (simp_all add: sync_stage_def emit_def)

lemma sync_stage_trace:
  "trace (sync_stage ctx s) = trace s @
     (if outo (lock_detect_st (data s)) \<and> tracker_bit_aligned ctx
      then [Log_info ''synced''] else [])"
  by (simp add: sync_stage_def emit_def)

lemma retune_stage_simps:
  "data (retune_stage s) = data s"
  "common (retune_stage s) = common s"
  "trace (retune_stage s) = trace s @
     [Retune (carrier_freq (common s)) (code_phase_rate (common s)) (int_ms (data s) - 1)]"
  by (simp_all add: retune_stage_def emit_def)

subsection \<open>The long cycle as a composition\<close>

lemma update_long:
  "\<not> short_cycle (data s) \<Longrightarrow>
   tracker_gps_l2cm_update ext g ctx s =
     (case cn0_stage ext g (long_entry ext ctx s) of
        Inl e \<Rightarrow> Inl e
      | Inr s1 \<Rightarrow>
         (case alias_stage ext g (filter_stage ext (lock_stage ext s1)) of
            Inl e \<Rightarrow> Inl e
          | Inr s2 \<Rightarrow> Inr (retune_stage (sync_stage ctx s2))))"
  by (simp add: tracker_gps_l2cm_update_def read_stage_def tow_stage_def Let_def
      long_cycle_def pre_alias_def long_entry_def split: sum.splits)

lemma before_alias_eq:
  "before_alias ext g ctx s =
     (case cn0_stage ext g (long_entry ext ctx s) of
        Inl e \<Rightarrow> Inl e
      | Inr s1 \<Rightarrow> Inr (filter_stage ext (lock_stage ext s1)))"
  by (simp add: before_alias_def pre_alias_def long_entry_def)

lemma update_long_Inr:
  assumes "\<not> short_cycle (data s)"
    and "tracker_gps_l2cm_update ext g ctx s = Inr s'"
  obtains s1 s2 where
    "cn0_stage ext g (long_entry ext ctx s) = Inr s1"
    "before_alias ext g ctx s = Inr (filter_stage ext (lock_stage ext s1))"
    "alias_stage ext g (filter_stage ext (lock_stage ext s1)) = Inr s2"
    "s' = retune_stage (sync_stage ctx s2)"
  using assms
  by (auto simp add: update_long before_alias_eq split: sum.splits)

lemma update_flips:
  assumes r: "tracker_gps_l2cm_update ext g ctx s = Inr s'"
  shows "short_cycle (data s') = (\<not> short_cycle (data s))"
    and "int_ms (data s') = int_ms (data s)"
proof -
  have "short_cycle (data s') = (\<not> short_cycle (data s)) \<and> int_ms (data s') = int_ms (data s)"
  proof (cases "short_cycle (data s)")
    case True
    with r show ?thesis by (simp add: update_short) auto
  next
    case False
    from False r obtain s1 s2 where
      c: "cn0_stage ext g (long_entry ext ctx s) = Inr s1"
      and a: "alias_stage ext g (filter_stage ext (lock_stage ext s1)) = Inr s2"
      and e: "s' = retune_stage (sync_stage ctx s2)"
      by (rule update_long_Inr)
    show ?thesis
      using False e alias_stage_Inr(1,2)[OF a] cn0_stage_data(1,2)[OF c]
      by (simp add: retune_stage_simps sync_stage_data filter_stage_data lock_stage_data
          long_entry_data)
  qed
  then show "short_cycle (data s') = (\<not> short_cycle (data s))"
    and "int_ms (data s') = int_ms (data s)" by simp_all
qed

lemma update_returns:
  assumes "int_ms (data s) \<noteq> 0" and "int_ms (data s) \<noteq> 1"
  shows "\<exists>s'. tracker_gps_l2cm_update ext g ctx s = Inr s'"
proof (cases "short_cycle (data s)")
  case True
  then show ?thesis by (simp add: update_short)
next
  case False
  have "int_ms (data (long_entry ext ctx s)) \<noteq> 0"
    using False assms(1) by (simp add: long_entry_data)
  then obtain s1 where c: "cn0_stage ext g (long_entry ext ctx s) = Inr s1"
    using cn0_stage_returns by blast
  have i: "int_ms (data s1) = int_ms (data s)"
    using cn0_stage_data(1)[OF c] False by (simp add: long_entry_data)
  have "\<exists>s2. alias_stage ext g (filter_stage ext (lock_stage ext s1)) = Inr s2"
    using assms i by (intro alias_stage_returns) (simp_all add: filter_stage_data lock_stage_data)
  then obtain s2 where a: "alias_stage ext g (filter_stage ext (lock_stage ext s1)) = Inr s2" ..
  show ?thesis using False c a by (simp add: update_long)
qed

lemma updates_returns:
  "int_ms (data s) \<noteq> 0 \<Longrightarrow> int_ms (data s) \<noteq> 1 \<Longrightarrow>
   \<exists>s'. updates ext xs s = Inr s' \<and> int_ms (data s') = int_ms (data s)"
proof (induction xs arbitrary: s)
  case Nil
  then show ?case by simp
next
  case (Cons x xs)
  from Cons.prems obtain s1 where u: "tracker_gps_l2cm_update ext (fst x) (snd x) s = Inr s1"
    using update_returns by blast
  have i: "int_ms (data s1) = int_ms (data s)" using u by (rule update_flips(2))
  with Cons.prems Cons.IH[of s1] u show ?case by simp
qed

lemma updates_short_cycle:
  "updates ext xs s = Inr s' \<Longrightarrow>
   short_cycle (data s') = (if even (length xs) then short_cycle (data s) else \<not> short_cycle (data s))"
proof (induction xs arbitrary: s)
  case Nil
  then show ?case by simp
next
  case (Cons x xs)
  from Cons.prems obtain s1 where u: "tracker_gps_l2cm_update ext (fst x) (snd x) s = Inr s1"
    and r: "updates ext xs s1 = Inr s'"
    by (auto split: sum.splits)
  from Cons.IH[OF r] update_flips(1)[OF u] show ?case by simp
qed

lemma init_Inr:
  assumes "tracker_gps_l2cm_init ext g c = Inr (d, es)"
  shows "short_cycle d" and "int_ms d = coherent_ms (loop_params_stage g)"
    and "coherent_ms (loop_params_stage g) \<noteq> 0" and "es = [Ambiguity_unknown]"
  using assms
  by (auto simp add: tracker_gps_l2cm_init_def Let_def split: if_splits)

lemma init_returns:
  "coherent_ms (loop_params_stage g) \<noteq> 0 \<Longrightarrow> \<exists>d. tracker_gps_l2cm_init ext g c = Inr (d, [Ambiguity_unknown])"
  by (simp add: tracker_gps_l2cm_init_def Let_def)

subsection \<open>The definitions run on the test instance\<close>

lemma test_init:
  "tracker_gps_l2cm_init (test_externals v ld err) test_globals test_common =
     Inr (test_data_short\<lparr>lock_detect_st := \<lparr>outp = False, outo = False, ld_internal = 0\<rparr>\<rparr>,
          [Ambiguity_unknown])"
  by (simp add: tracker_gps_l2cm_init_def test_externals_def test_globals_def test_common_def
      test_data_short_def zeroed_data_def med_loop_params_def Let_def numeral_3_eq_3)

lemma test_update_short:
  "tracker_gps_l2cm_update (test_externals v ld err) test_globals
      (test_context test_read_short False) test_short =
   Inr \<lparr>common = test_common\<lparr>sample_count := 16384368, code_phase_early := 1 / 2,
                  carrier_phase := 1 / 4, TOW_ms := 345600001\<rparr>,
        data = test_data_long,
        trace = [Correlations_read, Tow_update 345600000 1, Retune 1500 1023000 0]\<rparr>"
  by (simp add: update_short test_short_def test_data_short_def test_data_long_def
      test_context_def test_read_short_def test_externals_def test_common_def s32_to_float_def)


lemmas test_defs = test_externals_def test_globals_def test_common_def test_data_short_def
  test_data_long_def test_short_def test_long_def test_context_def test_read_short_def
  test_read_long_def locked_def unlocked_def med_loop_params_def

lemmas stage_defs = tracker_gps_l2cm_update_def read_stage_def tow_stage_def toggle_stage_def
  long_cycle_def pre_alias_def count_stage_def cn0_stage_def lock_stage_def filter_stage_def
  alias_stage_def alias_second_def sync_stage_def retune_stage_def emit_def accumulate_def
  s32_to_float_def

lemma test_update_long:
  "tracker_gps_l2cm_update (test_externals 40 locked 100) test_globals
      (test_context test_read_long True) test_long =
   Inr \<lparr>common = test_common\<lparr>sample_count := 16384368, code_phase_early := 1 / 2,
                  carrier_phase := 1 / 4, TOW_ms := 345600019, update_count := 1020,
                  cn0_above_drop_thres_count := 1020, ld_opti_locked_count := 1020,
                  mode_change_count := 1020\<rparr>,
        data = test_data_long\<lparr>cs := [\<lparr>I = 1160, Q = 74\<rparr>, \<lparr>I = 2000, Q = - 85\<rparr>,
                                      \<lparr>I = 1050, Q = 57\<rparr>],
                  short_cycle := True,
                  tl_state := \<lparr>carr_freq = 1600, code_freq = 0, carr_filt_y = 1600,
                               tl_internal = 0\<rparr>\<rparr>,
        trace = [Correlations_read, Tow_update 345600000 19, Bit_sync_update 20 2000,
                 Correlations_send [\<lparr>I = 1160, Q = 74\<rparr>, \<lparr>I = 2000, Q = - 85\<rparr>,
                                    \<lparr>I = 1050, Q = 57\<rparr>],
                 Log_warn ''False phase lock detected'', Ambiguity_unknown,
                 Log_info ''synced'', Retune 1500 1023000 19]\<rparr>"
  by (simp add: stage_defs test_defs Let_def numeral_3_eq_3)

section \<open>The claims\<close>

subsection \<open>C2: the short-cycle flag alternates\<close>

text \<open>
  C2. For every initialised channel the flag \<open>short_cycle\<close> strictly alternates across
  consecutive calls of the update function: the initialisation sets it, every call that
  returns negates it exactly once, and after \<open>n\<close> calls from the initialisation it is
  set exactly when \<open>n\<close> is even.
\<close>

theorem short_cycle_alternates:
  "(tracker_gps_l2cm_init ext g c = Inr (d, es) \<longrightarrow> short_cycle d) \<and>
   (tracker_gps_l2cm_update ext g' ctx s = Inr s' \<longrightarrow>
      short_cycle (data s') = (\<not> short_cycle (data s))) \<and>
   (tracker_gps_l2cm_init ext g c = Inr (d, es) \<and>
    updates ext xs \<lparr>common = c, data = d, trace = es\<rparr> = Inr s'' \<longrightarrow>
      short_cycle (data s'') = even (length xs))"
  using init_Inr(1)[of ext g c d es] update_flips(1)[of ext g' ctx s s']
    updates_short_cycle[of ext xs "\<lparr>common = c, data = d, trace = es\<rparr>" s'']
  by auto

theorem short_cycle_alternates_witness:
  "\<exists>d es s' s''.
     tracker_gps_l2cm_init (test_externals 40 locked 0) test_globals test_common = Inr (d, es) \<and>
     short_cycle d \<and>
     tracker_gps_l2cm_update (test_externals 40 locked 0) test_globals
       (test_context test_read_short False) test_short = Inr s' \<and>
     short_cycle (data s') = (\<not> short_cycle (data test_short)) \<and>
     updates (test_externals 40 locked 0)
       [(test_globals, test_context test_read_short False),
        (test_globals, test_context test_read_long False),
        (test_globals, test_context test_read_short False)]
       \<lparr>common = test_common, data = d, trace = es\<rparr> = Inr s'' \<and>
     short_cycle (data s'') = even (length
       [(test_globals, test_context test_read_short False),
        (test_globals, test_context test_read_long False),
        (test_globals, test_context test_read_short False)])"
proof -
  let ?E = "test_externals 40 locked 0"
  let ?xs = "[(test_globals, test_context test_read_short False),
        (test_globals, test_context test_read_long False),
        (test_globals, test_context test_read_short False)]"
  obtain d es where i: "tracker_gps_l2cm_init ?E test_globals test_common = Inr (d, es)"
    using test_init by blast
  obtain s' where u: "tracker_gps_l2cm_update ?E test_globals
       (test_context test_read_short False) test_short = Inr s'"
    using test_update_short by blast
  have "int_ms d = 20"
    using init_Inr(2)[OF i] by (simp add: test_globals_def)
  then obtain s'' where r: "updates ?E ?xs \<lparr>common = test_common, data = d, trace = es\<rparr> = Inr s''"
    using updates_returns[of "\<lparr>common = test_common, data = d, trace = es\<rparr>" ?E ?xs] by auto
  from short_cycle_alternates[of ?E test_globals test_common d es test_globals
      "test_context test_read_short False" test_short s' ?xs s''] i u r
  show ?thesis by blast
qed

subsection \<open>C3: the accumulator after a short and a long cycle\<close>

lemma accumulate_nth:
  "i < 3 \<Longrightarrow> accumulate a b ! i = \<lparr>I = I (a ! i) + I (b ! i), Q = Q (a ! i) + Q (b ! i)\<rparr>"
  by (simp add: accumulate_def del: upt_Suc)

lemma update_long_cs:
  assumes "\<not> short_cycle (data s)" and "tracker_gps_l2cm_update ext g ctx s = Inr s'"
  shows "cs (data s') = accumulate (cs (data s)) (rd_cs ctx)"
proof -
  from assms obtain s1 s2 where
    c: "cn0_stage ext g (long_entry ext ctx s) = Inr s1"
    and a: "alias_stage ext g (filter_stage ext (lock_stage ext s1)) = Inr s2"
    and e: "s' = retune_stage (sync_stage ctx s2)"
    by (rule update_long_Inr)
  show ?thesis
    using assms(1) e alias_stage_Inr(3)[OF a] cn0_stage_data(3)[OF c]
    by (simp add: retune_stage_simps sync_stage_data filter_stage_data lock_stage_data
        long_entry_data)
qed

text \<open>
  C3. After a short call followed by a long call the accumulator \<open>cs\<close> has three
  entries, and each entry's I and Q are the sums of the I and Q that the two calls read.
  The sums are those of the 32-bit accumulator: they wrap around.
\<close>

theorem accumulator_is_sum_of_reads:
  assumes "short_cycle (data s)"
    and "tracker_gps_l2cm_update ext g1 ctx1 s = Inr s1"
    and "tracker_gps_l2cm_update ext g2 ctx2 s1 = Inr s2"
  shows "length (cs (data s2)) = 3 \<and>
         (\<forall>i<3. I (cs (data s2) ! i) = I (rd_cs ctx1 ! i) + I (rd_cs ctx2 ! i) \<and>
                 Q (cs (data s2) ! i) = Q (rd_cs ctx1 ! i) + Q (rd_cs ctx2 ! i))"
proof -
  have 1: "cs (data s1) = rd_cs ctx1" and n: "\<not> short_cycle (data s1)"
    using assms(1,2) by (auto simp add: update_short)
  have "cs (data s2) = accumulate (rd_cs ctx1) (rd_cs ctx2)"
    using update_long_cs[OF n assms(3)] 1 by simp
  then show ?thesis
    by (simp add: accumulate_nth) (simp add: accumulate_def)
qed

theorem accumulator_is_sum_of_reads_witness:
  "\<exists>s1 s2.
     short_cycle (data test_short) \<and>
     tracker_gps_l2cm_update (test_externals 40 locked 0) test_globals
       (test_context test_read_short False) test_short = Inr s1 \<and>
     tracker_gps_l2cm_update (test_externals 40 locked 0) test_globals
       (test_context test_read_long False) s1 = Inr s2 \<and>
     length (cs (data s2)) = 3 \<and>
     I (cs (data s2) ! 0) = 1160 \<and> Q (cs (data s2) ! 0) = 74 \<and>
     I (cs (data s2) ! 1) = 2000 \<and> Q (cs (data s2) ! 1) = - 85 \<and>
     I (cs (data s2) ! 2) = 1050 \<and> Q (cs (data s2) ! 2) = 57"
proof -
  let ?E = "test_externals 40 locked 0"
  have sh: "short_cycle (data test_short)"
    by (simp add: test_short_def test_data_short_def)
  obtain s1 where u1: "tracker_gps_l2cm_update ?E test_globals
       (test_context test_read_short False) test_short = Inr s1"
    using test_update_short by blast
  have "int_ms (data s1) = 20"
    using update_flips(2)[OF u1] by (simp add: test_short_def test_data_short_def)
  then obtain s2 where u2: "tracker_gps_l2cm_update ?E test_globals
       (test_context test_read_long False) s1 = Inr s2"
    using update_returns[of s1 ?E test_globals "test_context test_read_long False"] by auto
  have "length (cs (data s2)) = 3 \<and>
     (\<forall>i<3. I (cs (data s2) ! i) = I (test_read_short ! i) + I (test_read_long ! i) \<and>
             Q (cs (data s2) ! i) = Q (test_read_short ! i) + Q (test_read_long ! i))"
    using accumulator_is_sum_of_reads[OF sh u1 u2] by (simp add: test_context_def)
  then have "length (cs (data s2)) = 3 \<and>
     I (cs (data s2) ! 0) = 1160 \<and> Q (cs (data s2) ! 0) = 74 \<and>
     I (cs (data s2) ! 1) = 2000 \<and> Q (cs (data s2) ! 1) = - 85 \<and>
     I (cs (data s2) ! 2) = 1050 \<and> Q (cs (data s2) ! 2) = 57"
    by (simp add: test_read_short_def test_read_long_def)
  with sh u1 u2 show ?thesis by blast
qed

subsection \<open>C6: the frame of a short cycle\<close>

text \<open>
  C6. A call on a short cycle returns. It stores the correlations read, hands the prompt
  I and Q to \<open>alias_detect_first\<close>, and its only calls of the tracker API are the
  read, the time-of-week update with 1 ms and a retune with the unchanged carrier
  frequency and code phase rate and the integration length 0. The loop filter, the C/N0
  estimator and the lock detector are untouched, and so are the update count, the C/N0,
  the carrier frequency, the code phase rate and the five event counters.
\<close>

theorem short_cycle_frame:
  assumes "short_cycle (data s)"
  shows "\<exists>s'. tracker_gps_l2cm_update ext g ctx s = Inr s' \<and>
     cs (data s') = rd_cs ctx \<and>
     alias_detect (data s') =
       alias_detect_first ext (alias_detect (data s))
         (s32_to_float ext (I (rd_cs ctx ! 1))) (s32_to_float ext (Q (rd_cs ctx ! 1))) \<and>
     trace s' = trace s @ [Correlations_read, Tow_update (TOW_ms (common s)) 1,
                  Retune (carrier_freq (common s)) (code_phase_rate (common s)) 0] \<and>
     tl_state (data s') = tl_state (data s) \<and>
     cn0_est_st (data s') = cn0_est_st (data s) \<and>
     lock_detect_st (data s') = lock_detect_st (data s) \<and>
     update_count (common s') = update_count (common s) \<and>
     cn0 (common s') = cn0 (common s) \<and>
     carrier_freq (common s') = carrier_freq (common s) \<and>
     code_phase_rate (common s') = code_phase_rate (common s) \<and>
     mode_change_count (common s') = mode_change_count (common s) \<and>
     cn0_below_use_thres_count (common s') = cn0_below_use_thres_count (common s) \<and>
     cn0_above_drop_thres_count (common s') = cn0_above_drop_thres_count (common s) \<and>
     ld_opti_locked_count (common s') = ld_opti_locked_count (common s) \<and>
     ld_pess_unlocked_count (common s') = ld_pess_unlocked_count (common s)"
  using assms by (simp add: update_short)

theorem short_cycle_frame_witness:
  "short_cycle (data test_short) \<and>
   (\<exists>s'. tracker_gps_l2cm_update (test_externals 40 locked 0) test_globals
            (test_context test_read_short False) test_short = Inr s' \<and>
      cs (data s') = test_read_short \<and>
      alias_detect (data s') = \<lparr>first_I = 100, first_Q = 5, ad_internal = 0\<rparr> \<and>
      trace s' = [Correlations_read, Tow_update 345600000 1, Retune 1500 1023000 0] \<and>
      update_count (common s') = 1000 \<and> cn0 (common s') = 40 \<and>
      carrier_freq (common s') = 1500 \<and> code_phase_rate (common s') = 1023000)"
proof -
  have sh: "short_cycle (data test_short)"
    by (simp add: test_short_def test_data_short_def)
  from short_cycle_frame[OF sh, of "test_externals 40 locked 0" test_globals
      "test_context test_read_short False"]
  obtain s' where "tracker_gps_l2cm_update (test_externals 40 locked 0) test_globals
            (test_context test_read_short False) test_short = Inr s'"
    and "cs (data s') = test_read_short"
    and "alias_detect (data s') = \<lparr>first_I = 100, first_Q = 5, ad_internal = 0\<rparr>"
    and "trace s' = [Correlations_read, Tow_update 345600000 1, Retune 1500 1023000 0]"
    and "update_count (common s') = 1000" and "cn0 (common s') = 40"
    and "carrier_freq (common s') = 1500" and "code_phase_rate (common s') = 1023000"
    by (auto simp add: test_defs s32_to_float_def)
  with sh show ?thesis by blast
qed

subsection \<open>C4: losing pessimistic lock\<close>

lemma update_long_lock:
  assumes "\<not> short_cycle (data s)" and "tracker_gps_l2cm_update ext g ctx s = Inr s'"
  obtains s1 s2 where
    "cn0_stage ext g (long_entry ext ctx s) = Inr s1"
    "alias_stage ext g (filter_stage ext (lock_stage ext s1)) = Inr s2"
    "s' = retune_stage (sync_stage ctx s2)"
    "lock_detect_st (data s1) = lock_detect_st (data s)"
    "lock_detect_st (data s') = lock_detect_st (data (lock_stage ext s1))"
    "update_count (common s') = update_count (common s) + ucast (int_ms (data s))"
    "update_count (common s1) = update_count (common s')"
proof -
  from assms obtain s1 s2 where
    c: "cn0_stage ext g (long_entry ext ctx s) = Inr s1"
    and a: "alias_stage ext g (filter_stage ext (lock_stage ext s1)) = Inr s2"
    and e: "s' = retune_stage (sync_stage ctx s2)"
    by (rule update_long_Inr)
  have 1: "lock_detect_st (data s1) = lock_detect_st (data s)"
    using cn0_stage_data(4)[OF c] assms(1) by (simp add: long_entry_data)
  have 2: "lock_detect_st (data s') = lock_detect_st (data (lock_stage ext s1))"
    using e alias_stage_Inr(4)[OF a]
    by (simp add: retune_stage_simps sync_stage_data filter_stage_data)
  have 3: "update_count (common s1) = update_count (common s) + ucast (int_ms (data s))"
    using cn0_stage_common(1)[OF c] assms(1) by (simp add: long_entry_common)
  have 4: "update_count (common s') = update_count (common s1)"
    using e alias_stage_Inr(5)[OF a]
    by (simp add: retune_stage_simps sync_stage_common filter_stage_common lock_stage_common)
  from c a e 1 2 3 4 that show thesis by simp
qed

lemma test_update_long_unlock:
  "tracker_gps_l2cm_update (test_externals 40 unlocked 0) test_globals
      (test_context test_read_long False) test_long =
   Inr \<lparr>common = test_common\<lparr>sample_count := 16384368, code_phase_early := 1 / 2,
                  carrier_phase := 1 / 4, TOW_ms := 345600019, update_count := 1020,
                  cn0_above_drop_thres_count := 1020, ld_pess_unlocked_count := 1020\<rparr>,
        data = test_data_long\<lparr>cs := [\<lparr>I = 1160, Q = 74\<rparr>, \<lparr>I = 2000, Q = - 85\<rparr>,
                                      \<lparr>I = 1050, Q = 57\<rparr>],
                  short_cycle := True, lock_detect_st := unlocked\<rparr>,
        trace = [Correlations_read, Tow_update 345600000 19, Bit_sync_update 20 2000,
                 Log_info ''PLL stress'', Ambiguity_unknown,
                 Correlations_send [\<lparr>I = 1160, Q = 74\<rparr>, \<lparr>I = 2000, Q = - 85\<rparr>,
                                    \<lparr>I = 1050, Q = 57\<rparr>],
                 Retune 1500 1023000 19]\<rparr>"
  by (simp add: stage_defs test_defs Let_def numeral_3_eq_3)

lemma test_long_is_long:
  "\<not> short_cycle (data test_long)" "int_ms (data test_long) = 20"
  "outp (lock_detect_st (data test_long))" "trace test_long = []"
  "update_count (common test_long) = 1000"
  by (simp_all add: test_long_def test_data_long_def test_data_short_def test_common_def)

text \<open>
  C4. On a long call, if the lock detector's \<open>outp\<close> was set when the call began and
  is clear after the detector's update in that call, then the call logs the PLL stress and
  resets the carrier phase ambiguity, and \<open>ld_pess_unlocked_count\<close> equals the update
  count of that call, which is the old count plus \<open>int_ms\<close>.
\<close>

theorem pess_unlock_resets_ambiguity:
  assumes "\<not> short_cycle (data s)"
    and "tracker_gps_l2cm_update ext g ctx s = Inr s'"
    and "outp (lock_detect_st (data s))"
    and "\<not> outp (lock_detect_st (data s'))"
  shows "(\<exists>es1 es2. trace s' = trace s @ es1 @ [Log_info ''PLL stress'', Ambiguity_unknown] @ es2) \<and>
         ld_pess_unlocked_count (common s') = update_count (common s') \<and>
         update_count (common s') = update_count (common s) + ucast (int_ms (data s))"
proof -
  from assms(1,2) obtain s1 s2 where
    c: "cn0_stage ext g (long_entry ext ctx s) = Inr s1"
    and a: "alias_stage ext g (filter_stage ext (lock_stage ext s1)) = Inr s2"
    and e: "s' = retune_stage (sync_stage ctx s2)"
    and l1: "lock_detect_st (data s1) = lock_detect_st (data s)"
    and l2: "lock_detect_st (data s') = lock_detect_st (data (lock_stage ext s1))"
    and u: "update_count (common s') = update_count (common s) + ucast (int_ms (data s))"
    and u1: "update_count (common s1) = update_count (common s')"
    by (rule update_long_lock)
  have np: "\<not> outp (lock_detect_st (data (lock_stage ext s1)))"
    using assms(4) l2 by simp
  have "ld_pess_unlocked_count (common s') = ld_pess_unlocked_count (common (lock_stage ext s1))"
    using e alias_stage_Inr(11)[OF a]
    by (simp add: retune_stage_simps sync_stage_common filter_stage_common)
  then have p: "ld_pess_unlocked_count (common s') = update_count (common s')"
    using lock_stage_common(5)[OF np] u1 by simp
  obtain es0 where t0: "trace s1 = trace s @ es0"
    using cn0_stage_trace[OF c] assms(1) by (simp add: long_entry_trace)
  have t1: "trace (lock_stage ext s1) = trace s1 @ [Log_info ''PLL stress'', Ambiguity_unknown]"
    using np assms(3) l1 by (simp add: lock_stage_trace)
  obtain es3 where t3: "trace s2 = trace (filter_stage ext (lock_stage ext s1)) @ es3"
    using alias_stage_Inr(13)[OF a] by blast
  obtain es4 where t4: "trace s' = trace s2 @ es4"
    using e by (simp add: retune_stage_simps sync_stage_trace sync_stage_common sync_stage_data)
  have "trace s' = trace s @ es0 @ [Log_info ''PLL stress'', Ambiguity_unknown]
          @ ([Correlations_send (cs (data (lock_stage ext s1)))] @ es3 @ es4)"
    using t0 t1 t3 t4 by (simp add: filter_stage_trace)
  then have "\<exists>es1 es2. trace s' = trace s @ es1 @ [Log_info ''PLL stress'', Ambiguity_unknown] @ es2"
    by blast
  with p u show ?thesis by blast
qed

theorem pess_unlock_resets_ambiguity_witness:
  "\<not> short_cycle (data test_long) \<and> outp (lock_detect_st (data test_long)) \<and>
   (\<exists>s'. tracker_gps_l2cm_update (test_externals 40 unlocked 0) test_globals
            (test_context test_read_long False) test_long = Inr s' \<and>
      \<not> outp (lock_detect_st (data s')) \<and>
      (\<exists>es1 es2. trace s' = es1 @ [Log_info ''PLL stress'', Ambiguity_unknown] @ es2) \<and>
      ld_pess_unlocked_count (common s') = update_count (common s') \<and>
      update_count (common s') = 1020)"
proof -
  obtain s' where u: "tracker_gps_l2cm_update (test_externals 40 unlocked 0) test_globals
            (test_context test_read_long False) test_long = Inr s'"
    and np: "\<not> outp (lock_detect_st (data s'))"
    using test_update_long_unlock by (simp add: unlocked_def)
  from pess_unlock_resets_ambiguity[OF test_long_is_long(1) u test_long_is_long(3) np]
  have "(\<exists>es1 es2. trace s' = es1 @ [Log_info ''PLL stress'', Ambiguity_unknown] @ es2) \<and>
      ld_pess_unlocked_count (common s') = update_count (common s') \<and>
      update_count (common s') = 1020"
    by (simp add: test_long_is_long)
  with u np test_long_is_long(1,3) show ?thesis by blast
qed

subsection \<open>C5: the C/N0 thresholds\<close>

text \<open>
  C5. On a long call the C/N0 is the estimator's output for the prompt correlations
  divided by \<open>int_ms\<close>. If it exceeds the drop threshold,
  \<open>cn0_above_drop_thres_count\<close> is the update count of that call; if it is below the
  use threshold, \<open>cn0_below_use_thres_count\<close> is the update count of that call and the
  ambiguity reset follows the bit sync update in the call's trace.
\<close>

theorem cn0_thresholds:
  assumes "\<not> short_cycle (data s)"
    and "tracker_gps_l2cm_update ext g ctx s = Inr s'"
  shows "cn0 (common s') =
           fst (cn0_est ext (cn0_est_st (data s))
             (to_float ext (real_of_int (sint (I (cs (data s') ! 1)) sdiv uint (int_ms (data s)))))
             (to_float ext (real_of_int (sint (Q (cs (data s') ! 1)) sdiv uint (int_ms (data s)))))) \<and>
         (track_cn0_drop_thres g < cn0 (common s') \<longrightarrow>
            cn0_above_drop_thres_count (common s') = update_count (common s')) \<and>
         (cn0 (common s') < track_cn0_use_thres g \<longrightarrow>
            cn0_below_use_thres_count (common s') = update_count (common s') \<and>
            (\<exists>es. trace s' = trace s @
               [Correlations_read, Tow_update (TOW_ms (common s)) (int_ms (data s) - 1),
                Bit_sync_update (int_ms (data s)) (I (cs (data s') ! 1)), Ambiguity_unknown] @ es))"
proof -
  from assms obtain s1 s2 where
    c: "cn0_stage ext g (long_entry ext ctx s) = Inr s1"
    and a: "alias_stage ext g (filter_stage ext (lock_stage ext s1)) = Inr s2"
    and e: "s' = retune_stage (sync_stage ctx s2)"
    and u1: "update_count (common s1) = update_count (common s')"
    by (rule update_long_lock)
  have acc: "cs (data s') = accumulate (cs (data s)) (rd_cs ctx)"
    using assms by (rule update_long_cs)
  have k: "cn0 (common s') = cn0 (common s1)"
    using e alias_stage_Inr(6)[OF a]
    by (simp add: retune_stage_simps sync_stage_common filter_stage_common lock_stage_common)
  have ka: "cn0_above_drop_thres_count (common s') = cn0_above_drop_thres_count (common s1)"
    using e alias_stage_Inr(9)[OF a]
    by (simp add: retune_stage_simps sync_stage_common filter_stage_common lock_stage_common)
  have kb: "cn0_below_use_thres_count (common s') = cn0_below_use_thres_count (common s1)"
    using e alias_stage_Inr(10)[OF a]
    by (simp add: retune_stage_simps sync_stage_common filter_stage_common lock_stage_common)
  have ue: "update_count (common (long_entry ext ctx s)) = update_count (common s')"
    using cn0_stage_common(1)[OF c] u1 by simp
  have v: "cn0 (common s') =
           fst (cn0_est ext (cn0_est_st (data s))
             (to_float ext (real_of_int (sint (I (cs (data s') ! 1)) sdiv uint (int_ms (data s)))))
             (to_float ext (real_of_int (sint (Q (cs (data s') ! 1)) sdiv uint (int_ms (data s))))))"
    using cn0_stage_common(2)[OF c] k acc assms(1) by (simp add: long_entry_data)
  have above: "track_cn0_drop_thres g < cn0 (common s') \<Longrightarrow>
            cn0_above_drop_thres_count (common s') = update_count (common s')"
    using cn0_stage_common(3)[OF c] k ka ue by simp
  have below: "cn0 (common s') < track_cn0_use_thres g \<Longrightarrow>
            cn0_below_use_thres_count (common s') = update_count (common s')"
    using cn0_stage_common(4)[OF c] k kb ue by simp
  have tr: "\<exists>es. trace s' = trace s @
               [Correlations_read, Tow_update (TOW_ms (common s)) (int_ms (data s) - 1),
                Bit_sync_update (int_ms (data s)) (I (cs (data s') ! 1)), Ambiguity_unknown] @ es"
    if b: "cn0 (common s') < track_cn0_use_thres g"
  proof -
    have t1: "trace s1 = trace s @
               [Correlations_read, Tow_update (TOW_ms (common s)) (int_ms (data s) - 1),
                Bit_sync_update (int_ms (data s)) (I (cs (data s') ! 1)), Ambiguity_unknown]"
      using cn0_stage_trace[OF c] b k acc assms(1) by (simp add: long_entry_trace)
    obtain es3 where t3: "trace s2 = trace (filter_stage ext (lock_stage ext s1)) @ es3"
      using alias_stage_Inr(13)[OF a] by blast
    obtain es4 where t4: "trace s' = trace s2 @ es4"
      using e by (simp add: retune_stage_simps sync_stage_trace sync_stage_common sync_stage_data)
    obtain es2 where t2: "trace (filter_stage ext (lock_stage ext s1)) = trace s1 @ es2"
      by (simp add: filter_stage_trace lock_stage_trace)
    have "trace s' = trace s @
               [Correlations_read, Tow_update (TOW_ms (common s)) (int_ms (data s) - 1),
                Bit_sync_update (int_ms (data s)) (I (cs (data s') ! 1)), Ambiguity_unknown]
               @ (es2 @ es3 @ es4)"
      using t1 t2 t3 t4 by simp
    then show ?thesis by blast
  qed
  from v above below tr show ?thesis by blast
qed

theorem cn0_thresholds_witness:
  "\<not> short_cycle (data test_long) \<and>
   (\<exists>s'. tracker_gps_l2cm_update (test_externals 40 locked 0) test_globals
            (test_context test_read_long False) test_long = Inr s' \<and>
      track_cn0_drop_thres test_globals < cn0 (common s') \<and>
      cn0_above_drop_thres_count (common s') = update_count (common s')) \<and>
   (\<exists>s'. tracker_gps_l2cm_update (test_externals 20 locked 0) test_globals
            (test_context test_read_long False) test_long = Inr s' \<and>
      cn0 (common s') < track_cn0_use_thres test_globals \<and>
      cn0_below_use_thres_count (common s') = update_count (common s') \<and>
      (\<exists>es. trace s' =
         [Correlations_read, Tow_update 345600000 19,
          Bit_sync_update 20 (I (cs (data s') ! 1)), Ambiguity_unknown] @ es))"
proof -
  let ?C = "test_context test_read_long False"
  obtain s1 where u1: "tracker_gps_l2cm_update (test_externals 40 locked 0) test_globals
            ?C test_long = Inr s1"
    using update_returns[of test_long "test_externals 40 locked 0" test_globals ?C]
    by (auto simp add: test_long_is_long)
  obtain s2 where u2: "tracker_gps_l2cm_update (test_externals 20 locked 0) test_globals
            ?C test_long = Inr s2"
    using update_returns[of test_long "test_externals 20 locked 0" test_globals ?C]
    by (auto simp add: test_long_is_long)
  note a = cn0_thresholds[OF test_long_is_long(1) u1]
  note b = cn0_thresholds[OF test_long_is_long(1) u2]
  have v1: "cn0 (common s1) = 40" using a by (simp add: test_externals_def)
  have v2: "cn0 (common s2) = 20" using b by (simp add: test_externals_def)
  have hi: "track_cn0_drop_thres test_globals < cn0 (common s1)"
    using v1 by (simp add: test_globals_def)
  have lo: "cn0 (common s2) < track_cn0_use_thres test_globals"
    using v2 by (simp add: test_globals_def)
  have c1: "cn0_above_drop_thres_count (common s1) = update_count (common s1)"
    using a hi by blast
  have c2: "cn0_below_use_thres_count (common s2) = update_count (common s2) \<and>
      (\<exists>es. trace s2 =
         [Correlations_read, Tow_update 345600000 19,
          Bit_sync_update 20 (I (cs (data s2) ! 1)), Ambiguity_unknown] @ es)"
    using b lo
    by (simp add: test_long_def test_common_def test_data_long_def test_data_short_def)
  from u1 u2 hi lo c1 c2 test_long_is_long(1) show ?thesis by blast
qed

subsection \<open>C9: the retune that ends a long cycle\<close>

text \<open>
  C9, as amended. The last API call of a long call is a retune with the carrier frequency
  and the code phase rate that the loop filter has just computed (\<open>carr_freq\<close>, and
  \<open>code_freq\<close> plus the chipping rate) and with \<open>int_ms - 1\<close>, computed in eight
  bits, as its integration-length argument.
\<close>

theorem long_cycle_retune:
  assumes "\<not> short_cycle (data s)"
    and "tracker_gps_l2cm_update ext g ctx s = Inr s'"
  shows "last (trace s') =
           Retune (carrier_freq (common s')) (code_phase_rate (common s')) (int_ms (data s) - 1) \<and>
         carrier_freq (common s') =
           carr_freq (aided_tl_update ext (tl_state (data s))
             (map (\<lambda>i. \<lparr>I = s32_to_float ext (I (cs (data s') ! (2 - i))),
                         Q = s32_to_float ext (Q (cs (data s') ! (2 - i)))\<rparr>) [0..<3])) \<and>
         code_phase_rate (common s') =
           code_freq (aided_tl_update ext (tl_state (data s))
             (map (\<lambda>i. \<lparr>I = s32_to_float ext (I (cs (data s') ! (2 - i))),
                         Q = s32_to_float ext (Q (cs (data s') ! (2 - i)))\<rparr>) [0..<3]))
           + GPS_CA_CHIPPING_RATE ext"
proof -
  from assms obtain s1 s2 where
    c: "cn0_stage ext g (long_entry ext ctx s) = Inr s1"
    and a: "alias_stage ext g (filter_stage ext (lock_stage ext s1)) = Inr s2"
    and e: "s' = retune_stage (sync_stage ctx s2)"
    by (rule update_long_Inr)
  have acc: "cs (data s') = accumulate (cs (data s)) (rd_cs ctx)"
    using assms by (rule update_long_cs)
  have i: "int_ms (data s2) = int_ms (data s)"
    using alias_stage_Inr(1)[OF a] cn0_stage_data(1)[OF c] assms(1)
    by (simp add: filter_stage_data lock_stage_data long_entry_data)
  have l: "last (trace s') =
           Retune (carrier_freq (common s')) (code_phase_rate (common s')) (int_ms (data s) - 1)"
    using e i by (simp add: retune_stage_simps sync_stage_common sync_stage_data)
  have d1: "tl_state (data s1) = tl_state (data s)" "cs (data s1) = cs (data s')"
    using cn0_stage_data(3,5)[OF c] assms(1) acc by (simp_all add: long_entry_data)
  have f: "carrier_freq (common s') = carrier_freq (common (filter_stage ext (lock_stage ext s1)))"
    "code_phase_rate (common s') = code_phase_rate (common (filter_stage ext (lock_stage ext s1)))"
    using e alias_stage_Inr(7,8)[OF a]
    by (simp_all add: retune_stage_simps sync_stage_common)
  show ?thesis
    using l f d1
    by (simp add: filter_stage_common filter_stage_data lock_stage_data)
qed

theorem long_cycle_retune_witness:
  "\<not> short_cycle (data test_long) \<and>
   (\<exists>s'. tracker_gps_l2cm_update (test_externals 40 locked 100) test_globals
            (test_context test_read_long True) test_long = Inr s' \<and>
      last (trace s') = Retune 1500 1023000 19 \<and>
      carrier_freq (common s') = 1500 \<and> code_phase_rate (common s') = 1023000)"
proof -
  obtain s' where u: "tracker_gps_l2cm_update (test_externals 40 locked 100) test_globals
            (test_context test_read_long True) test_long = Inr s'"
    using test_update_long by blast
  from long_cycle_retune[OF test_long_is_long(1) u]
  have "last (trace s') = Retune 1500 1023000 19 \<and>
      carrier_freq (common s') = 1500 \<and> code_phase_rate (common s') = 1023000"
    by (simp add: test_externals_def test_long_def test_data_long_def test_data_short_def)
  with u test_long_is_long(1) show ?thesis by blast
qed

text \<open>
  C9 as stated asks for the full integration length \<open>int_ms\<close> as the argument. On the
  test channel, whose \<open>int_ms\<close> is 20, the retune carries 19.
\<close>

theorem retune_full_length_counterexample:
  "\<not> short_cycle (data test_long) \<and> int_ms (data test_long) = 20 \<and>
   \<not> isl (tracker_gps_l2cm_update (test_externals 40 locked 100) test_globals
            (test_context test_read_long True) test_long) \<and>
   last (trace (projr (tracker_gps_l2cm_update (test_externals 40 locked 100) test_globals
            (test_context test_read_long True) test_long))) = Retune 1500 1023000 19 \<and>
   last (trace (projr (tracker_gps_l2cm_update (test_externals 40 locked 100) test_globals
            (test_context test_read_long True) test_long))) \<noteq>
     Retune 1500 1023000 (int_ms (data test_long))"
  by (simp add: test_update_long test_long_is_long)

subsection \<open>C1: the alias detector's correction\<close>

text \<open>
  C1. On a long call with alias detection enabled, let \<open>s7\<close> be the state just before
  the alias detection (line 365). If the lock detector shows \<open>outp\<close> or \<open>outo\<close>
  there and the magnitude of the error that \<open>alias_detect_second\<close> returns exceeds
  \<open>250 / int_ms\<close>, then the call warns of a false lock when \<open>outp\<close> is set, resets
  the ambiguity, leaves \<open>mode_change_count\<close> equal to the update count, and both
  \<open>carr_freq\<close> and \<open>carr_filt.y\<close> of the loop filter are its \<open>carr_freq\<close> after
  the filter update plus the error.
\<close>

theorem alias_correction:
  assumes "\<not> short_cycle (data s)"
    and "tracker_gps_l2cm_update ext g ctx s = Inr s'"
    and "before_alias ext g ctx s = Inr s7"
    and "use_alias_detection g"
    and "outp (lock_detect_st (data s7)) \<or> outo (lock_detect_st (data s7))"
    and "to_float ext (real_of_int (250 div uint (int_ms (data s)))) < \<bar>alias_err ext (data s7)\<bar>"
  shows "(\<exists>es. trace s' = trace s7 @
            (if outp (lock_detect_st (data s7)) then [Log_warn ''False phase lock detected'']
             else []) @ [Ambiguity_unknown] @ es) \<and>
         mode_change_count (common s') = update_count (common s') \<and>
         carr_freq (tl_state (data s')) = carr_freq (tl_state (data s7)) + alias_err ext (data s7) \<and>
         carr_filt_y (tl_state (data s')) = carr_freq (tl_state (data s7)) + alias_err ext (data s7)"
proof -
  from assms(1,2) obtain s1 s2 where
    c: "cn0_stage ext g (long_entry ext ctx s) = Inr s1"
    and b: "before_alias ext g ctx s = Inr (filter_stage ext (lock_stage ext s1))"
    and a: "alias_stage ext g (filter_stage ext (lock_stage ext s1)) = Inr s2"
    and e: "s' = retune_stage (sync_stage ctx s2)"
    by (rule update_long_Inr)
  have s7: "s7 = filter_stage ext (lock_stage ext s1)"
    using b assms(3) by simp
  have a7: "alias_stage ext g s7 = Inr s2" using a s7 by simp
  have i: "int_ms (data s7) = int_ms (data s)"
    using cn0_stage_data(1)[OF c] assms(1) s7
    by (simp add: filter_stage_data lock_stage_data long_entry_data)
  have big: "to_float ext (real_of_int (250 div uint (int_ms (data s7)))) < \<bar>alias_err ext (data s7)\<bar>"
    using assms(6) i by simp
  note f = alias_stage_fires[OF a7 assms(4) assms(5) big]
  have u: "update_count (common s') = update_count (common s7)"
    using e alias_stage_Inr(5)[OF a7] by (simp add: retune_stage_simps sync_stage_common)
  have m: "mode_change_count (common s') = update_count (common s')"
    using e f(2) alias_stage_Inr(5)[OF a7] u
    by (simp add: retune_stage_simps sync_stage_common)
  have d: "data s' = data s2"
    using e by (simp add: retune_stage_simps sync_stage_data)
  obtain es where t: "trace s' = trace s2 @ es"
    using e by (simp add: retune_stage_simps sync_stage_trace sync_stage_common sync_stage_data)
  have "trace s' = trace s7 @
            (if outp (lock_detect_st (data s7)) then [Log_warn ''False phase lock detected'']
             else []) @ [Ambiguity_unknown] @ es"
    using t f(1) by simp
  then have "\<exists>es. trace s' = trace s7 @
            (if outp (lock_detect_st (data s7)) then [Log_warn ''False phase lock detected'']
             else []) @ [Ambiguity_unknown] @ es" ..
  with m d f(3,4) show ?thesis by simp
qed

theorem alias_correction_witness:
  "\<not> short_cycle (data test_long) \<and> use_alias_detection test_globals \<and>
   (\<exists>s7 s'. before_alias (test_externals 40 locked 100) test_globals
               (test_context test_read_long True) test_long = Inr s7 \<and>
      tracker_gps_l2cm_update (test_externals 40 locked 100) test_globals
               (test_context test_read_long True) test_long = Inr s' \<and>
      outp (lock_detect_st (data s7)) \<and>
      alias_err (test_externals 40 locked 100) (data s7) = 100 \<and>
      carr_freq (tl_state (data s7)) = 1500 \<and>
      (\<exists>es. trace s' = trace s7 @ [Log_warn ''False phase lock detected'', Ambiguity_unknown] @ es) \<and>
      mode_change_count (common s') = update_count (common s') \<and>
      carr_freq (tl_state (data s')) = 1600 \<and>
      carr_filt_y (tl_state (data s')) = 1600)"
proof -
  let ?E = "test_externals 40 locked 100"
  let ?C = "test_context test_read_long True"
  obtain s' where u: "tracker_gps_l2cm_update ?E test_globals ?C test_long = Inr s'"
    using test_update_long by blast
  from test_long_is_long(1) u obtain s1 where
    c: "cn0_stage ?E test_globals (long_entry ?E ?C test_long) = Inr s1"
    and b: "before_alias ?E test_globals ?C test_long = Inr (filter_stage ?E (lock_stage ?E s1))"
    by (rule update_long_Inr)
  define s7 where "s7 = filter_stage ?E (lock_stage ?E s1)"
  have b7: "before_alias ?E test_globals ?C test_long = Inr s7"
    using b by (simp add: s7_def)
  have en: "use_alias_detection test_globals" by (simp add: test_globals_def)
  have lk: "outp (lock_detect_st (data s7))"
    by (simp add: s7_def filter_stage_data lock_stage_data test_externals_def locked_def)
  have er: "alias_err ?E (data s7) = 100"
    by (simp add: alias_err_def alias_second_def test_externals_def Let_def)
  have cf: "carr_freq (tl_state (data s7)) = 1500"
    using cn0_stage_data(5)[OF c]
    by (simp add: s7_def filter_stage_data lock_stage_data long_entry_data test_long_is_long
        test_externals_def test_long_def test_data_long_def test_data_short_def)
  have big: "to_float ?E (real_of_int (250 div uint (int_ms (data test_long)))) < \<bar>alias_err ?E (data s7)\<bar>"
    by (simp add: er test_long_is_long) (simp add: test_externals_def)
  from alias_correction[OF test_long_is_long(1) u b7 en _ big] lk
  have "(\<exists>es. trace s' = trace s7 @ [Log_warn ''False phase lock detected'', Ambiguity_unknown] @ es) \<and>
      mode_change_count (common s') = update_count (common s') \<and>
      carr_freq (tl_state (data s')) = 1600 \<and>
      carr_filt_y (tl_state (data s')) = 1600"
    by (simp add: er cf)
  with b7 u lk er cf en test_long_is_long(1) show ?thesis by blast
qed

subsection \<open>C7: the settings parsers\<close>

text \<open>
  What the parsers do in general: a rejected string leaves the setting and the parameters
  as they were; an accepted string is saved with a terminator in the last byte of the
  setting's memory, after the characters of the string when it fits. \<open>parse_loop_params\<close>
  accepts exactly when \<open>sscanf\<close> assigned all nine items and the number it read,
  narrowed to eight bits, is 20.
\<close>

lemma parse_loop_params_rejects:
  assumes "parse_loop_params ext st val g = (False, st', g', es)"
  shows "st' = st" and "g' = g"
  using assms
  by (auto simp add: parse_loop_params_def Let_def split: prod.splits if_splits)

lemma parse_loop_params_accepts:
  assumes "parse_loop_params ext st val g = (True, st', g', es)"
  shows "coherent_ms (loop_params_stage g') = 20"
    and "st' = save_string st val"
    and "g' = g\<lparr>loop_params_stage := loop_params_stage g'\<rparr>"
    and "ucast (fst (snd (sscanf_loop_params ext val))) = (20 :: u8)"
    and "9 \<le> fst (sscanf_loop_params ext val)"
  using assms
  by (auto simp add: parse_loop_params_def Let_def L2C_COHERENT_INTEGRATION_TIME_MS_def
      split: prod.splits if_splits)

lemma parse_lock_detect_params_rejects:
  assumes "parse_lock_detect_params ext st val g = (False, st', g', es)"
  shows "st' = st" and "g' = g"
  using assms
  by (auto simp add: parse_lock_detect_params_def Let_def split: prod.splits if_splits)

lemma parse_lock_detect_params_accepts:
  assumes "parse_lock_detect_params ext st val g = (True, st', g', es)"
  shows "st' = save_string st val"
    and "g' = g\<lparr>lock_detect_params := snd (sscanf_lock_detect_params ext val)\<rparr>"
  using assms
  by (auto simp add: parse_lock_detect_params_def Let_def split: prod.splits if_splits)

lemma strncpy_length: "n \<le> length dest \<Longrightarrow> length (strncpy dest src n) = length dest"
  by (simp add: strncpy_def Let_def)

lemma save_string_terminated:
  assumes "len st = length (addr st)" and "0 < len st"
  shows "length (addr (save_string st val)) = len st"
    and "addr (save_string st val) ! (len st - 1) = CHR 0x00"
    and "len (save_string st val) = len st"
proof -
  have l: "length (strncpy (addr st) val (len st)) = len st"
    using assms(1) by (simp add: strncpy_length)
  show "length (addr (save_string st val)) = len st"
    using l assms(2) by (simp add: save_string_def Let_def)
  show "addr (save_string st val) ! (len st - 1) = CHR 0x00"
    using l assms(2) by (simp add: save_string_def Let_def)
  show "len (save_string st val) = len st"
    by (simp add: save_string_def Let_def)
qed

lemma save_string_copies:
  assumes "len st = length (addr st)" and "length val < len st" and "CHR 0x00 \<notin> set val"
  shows "take (length val) (addr (save_string st val)) = val"
proof -
  have tw: "takeWhile (\<lambda>c. c \<noteq> CHR 0x00) val = val"
    using assms(3) by auto
  have "strncpy (addr st) val (len st) = val @ replicate (len st - length val) (CHR 0x00)"
    unfolding strncpy_def Let_def tw using assms(1,2) by simp
  then show ?thesis
    using assms(2) by (simp add: save_string_def Let_def)
qed

lemma loop_params_rejects_10:
  "parse_loop_params (test_externals 40 locked 0) test_loop_params_setting
          ''(10 ms, (1, 0.7, 1, 1200), (13, 0.7, 1, 5))'' test_globals =
     (False, test_loop_params_setting, test_globals,
      [Log_error ''Invalid coherent integration length for L2CM''])"
  by (simp add: parse_loop_params_def test_externals_def test_sscanf_loop_params_def
      L2C_COHERENT_INTEGRATION_TIME_MS_def Let_def)

lemma replicate_update_same: "(replicate n x)[i := x] = replicate n x"
  by (induction n arbitrary: i) (simp_all split: nat.split)

lemma loop_params_accepts_default:
  "parse_loop_params (test_externals 40 locked 0) test_loop_params_setting LOOP_PARAMS_MED
     (test_globals\<lparr>loop_params_stage := med_loop_params\<rparr>) =
     (True, test_loop_params_setting, test_globals, [])"
  by (simp add: parse_loop_params_def test_externals_def test_sscanf_loop_params_def
      L2C_COHERENT_INTEGRATION_TIME_MS_def save_string_def strncpy_def
      test_loop_params_setting_def LOOP_PARAMS_MED_def test_globals_def Let_def
      replicate_update_same)

lemma lock_detect_params_accepts_default:
  "parse_lock_detect_params (test_externals 40 locked 0) test_lock_detect_setting LD_PARAMS
     test_globals = (True, test_lock_detect_setting, test_globals, [])"
  by (simp add: parse_lock_detect_params_def test_externals_def
      test_sscanf_lock_detect_params_def save_string_def strncpy_def
      test_lock_detect_setting_def LD_PARAMS_def test_globals_def Let_def
      replicate_update_same)

text \<open>
  C7 asks that a \<open>loop_params\<close> string whose coherent length differs from 20 ms be
  rejected. The parser compares after the narrowing assignment \<open>l->coherent_ms = tmp\<close>
  of line 429, so a length of 276 ms passes as 20: the call returns true, the string with
  276 in it is saved as the setting and the stored \<open>coherent_ms\<close> is 20.
\<close>

theorem loop_params_accepts_276:
  "fst (parse_loop_params (test_externals 40 locked 0) test_loop_params_setting
          ''(276 ms, (1, 0.7, 1, 1200), (13, 0.7, 1, 5))'' test_globals) = True \<and>
   take 44 (addr (fst (snd (parse_loop_params (test_externals 40 locked 0)
          test_loop_params_setting
          ''(276 ms, (1, 0.7, 1, 1200), (13, 0.7, 1, 5))'' test_globals)))) =
     ''(276 ms, (1, 0.7, 1, 1200), (13, 0.7, 1, 5))'' \<and>
   coherent_ms (loop_params_stage (fst (snd (snd (parse_loop_params (test_externals 40 locked 0)
          test_loop_params_setting
          ''(276 ms, (1, 0.7, 1, 1200), (13, 0.7, 1, 5))'' test_globals))))) = 20"
  by (simp add: parse_loop_params_def test_externals_def test_sscanf_loop_params_def
      L2C_COHERENT_INTEGRATION_TIME_MS_def save_string_def strncpy_def
      test_loop_params_setting_def LOOP_PARAMS_MED_def Let_def)

subsection \<open>C10: no division by zero after a successful parse\<close>

text \<open>Without the parse the error branches are reached: the static
  \<open>loop_params_stage\<close> starts with \<open>coherent_ms = 0\<close>.\<close>

lemma init_divides_by_zero:
  "coherent_ms (loop_params_stage g) = 0 \<Longrightarrow>
   tracker_gps_l2cm_init ext g c = Inl Division_by_zero"
  by (simp add: tracker_gps_l2cm_init_def Let_def)

lemma update_divides_by_zero:
  "\<not> short_cycle (data s) \<Longrightarrow> int_ms (data s) = 0 \<Longrightarrow>
   tracker_gps_l2cm_update ext g ctx s = Inl Division_by_zero"
  by (simp add: update_long long_entry_data cn0_stage_def Let_def)

text \<open>
  C10. After \<open>parse_loop_params\<close> has accepted a string, an initialisation that
  finds the loop parameters it stored returns with \<open>int_ms = 20\<close>, and from there
  every sequence of update calls, whatever the configuration and the hardware deliver,
  returns without reaching a division by zero; \<open>int_ms\<close> stays 20, so the divisors
  \<open>int_ms\<close> and \<open>int_ms - 1\<close> are not zero.
\<close>

theorem no_division_by_zero:
  assumes "parse_loop_params ext st val g = (True, st', g', es)"
    and "loop_params_stage g'' = loop_params_stage g'"
  shows "\<exists>d. tracker_gps_l2cm_init ext g'' c = Inr (d, [Ambiguity_unknown]) \<and>
           int_ms d = 20 \<and>
           (\<forall>xs c' tr. \<exists>s'. updates ext xs \<lparr>common = c', data = d, trace = tr\<rparr> = Inr s' \<and>
              int_ms (data s') = 20 \<and> uint (int_ms (data s')) \<noteq> 0 \<and>
              uint (int_ms (data s')) - 1 \<noteq> 0)"
proof -
  have k: "coherent_ms (loop_params_stage g'') = 20"
    using parse_loop_params_accepts(1)[OF assms(1)] assms(2) by simp
  then obtain d where i: "tracker_gps_l2cm_init ext g'' c = Inr (d, [Ambiguity_unknown])"
    using init_returns[of g'' ext c] by auto
  have m: "int_ms d = 20" using init_Inr(2)[OF i] k by simp
  have "\<exists>s'. updates ext xs \<lparr>common = c', data = d, trace = tr\<rparr> = Inr s' \<and>
              int_ms (data s') = 20 \<and> uint (int_ms (data s')) \<noteq> 0 \<and>
              uint (int_ms (data s')) - 1 \<noteq> 0" for xs c' tr
    using updates_returns[of "\<lparr>common = c', data = d, trace = tr\<rparr>" ext xs] m by auto
  with i m show ?thesis by blast
qed

theorem no_division_by_zero_witness:
  "\<exists>st' g' es.
     parse_loop_params (test_externals 40 locked 0) test_loop_params_setting LOOP_PARAMS_MED
       (test_globals\<lparr>loop_params_stage := med_loop_params\<rparr>) = (True, st', g', es) \<and>
     (\<exists>d. tracker_gps_l2cm_init (test_externals 40 locked 0) g' test_common =
            Inr (d, [Ambiguity_unknown]) \<and>
          int_ms d = 20 \<and>
          (\<exists>s'. updates (test_externals 40 locked 0)
                  [(test_globals, test_context test_read_short False),
                   (test_globals, test_context test_read_long False)]
                  \<lparr>common = test_common, data = d, trace = [Ambiguity_unknown]\<rparr> = Inr s' \<and>
                int_ms (data s') = 20))"
proof -
  have "fst (parse_loop_params (test_externals 40 locked 0) test_loop_params_setting
          LOOP_PARAMS_MED (test_globals\<lparr>loop_params_stage := med_loop_params\<rparr>)) = True"
    by (simp add: parse_loop_params_def test_externals_def test_sscanf_loop_params_def
        L2C_COHERENT_INTEGRATION_TIME_MS_def LOOP_PARAMS_MED_def Let_def)
  then obtain st' g' es where
    p: "parse_loop_params (test_externals 40 locked 0) test_loop_params_setting LOOP_PARAMS_MED
       (test_globals\<lparr>loop_params_stage := med_loop_params\<rparr>) = (True, st', g', es)"
    by (cases "parse_loop_params (test_externals 40 locked 0) test_loop_params_setting
          LOOP_PARAMS_MED (test_globals\<lparr>loop_params_stage := med_loop_params\<rparr>)") auto
  from no_division_by_zero[OF p refl, of test_common] p show ?thesis by blast
qed

subsection \<open>C8: the handover\<close>

declare scan_channels.simps [simp del]

lemma scan_channels_none:
  "(\<And>j. i \<le> j \<Longrightarrow> j < unat (nap_track_n_channels r) \<Longrightarrow>
      \<not> (tracker_channel_available r j sid \<and> decoder_channel_available r j sid))
   \<Longrightarrow> scan_channels r sid i = - 1"
proof (induction r sid i rule: scan_channels.induct)
  case (1 r sid i)
  show ?case
  proof (cases "i < unat (nap_track_n_channels r)")
    case True
    then have n: "\<not> (tracker_channel_available r i sid \<and> decoder_channel_available r i sid)"
      using "1.prems"[of i] by simp
    have "scan_channels r sid (i + 1) = - 1"
      using True n "1.prems" by (intro "1.IH") auto
    then show ?thesis using True n by (subst scan_channels.simps) auto
  next
    case False
    then show ?thesis by (subst scan_channels.simps) simp
  qed
qed

lemma scan_channels_first:
  "i \<le> k \<Longrightarrow> k < unat (nap_track_n_channels r) \<Longrightarrow>
   tracker_channel_available r k sid \<and> decoder_channel_available r k sid \<Longrightarrow>
   (\<And>j. i \<le> j \<Longrightarrow> j < k \<Longrightarrow>
      \<not> (tracker_channel_available r j sid \<and> decoder_channel_available r j sid))
   \<Longrightarrow> scan_channels r sid i = int k"
proof (induction r sid i rule: scan_channels.induct)
  case (1 r sid i)
  have lt: "i < unat (nap_track_n_channels r)" using "1.prems"(1,2) by simp
  show ?case
  proof (cases "i = k")
    case True
    then show ?thesis using lt "1.prems"(3) by (subst scan_channels.simps) simp
  next
    case False
    then have n: "\<not> (tracker_channel_available r i sid \<and> decoder_channel_available r i sid)"
      using "1.prems"(1) "1.prems"(4)[of i] by simp
    have "scan_channels r sid (i + 1) = int k"
      using lt n False "1.prems" by (intro "1.IH") auto
    then show ?thesis using lt n by (subst scan_channels.simps) auto
  qed
qed

lemma capable: "unat (n::u16) < 32 \<Longrightarrow> (NOT 0 :: u32) AND push_bit (unat n) 1 \<noteq> 0"
  by (simp add: push_bit_eq_mult)


lemma handover_found:
  assumes sc: "scan_channels r \<lparr>sat = sat', code = CODE_GPS_L2CM\<rparr> 0 = int i"
    and cap: "(NOT 0 :: u32) AND push_bit (unat sat') 1 \<noteq> 0"
    and t: "tracker_channel_available r i \<lparr>sat = sat', code = CODE_GPS_L2CM\<rparr>"
    and d: "decoder_channel_available r i \<lparr>sat = sat', code = CODE_GPS_L2CM\<rparr>"
  shows "do_l1ca_to_l2cm_handover ext r sat' nap_channel code_phase =
          r\<lparr>tracker_channels := (tracker_channels r)
                [i := \<lparr>active = True, ch_sid = \<lparr>sat = sat', code = CODE_GPS_L2CM\<rparr>,
                       ch_sample_count = nap_timing_count r,
                       ch_code_phase = code_phase,
                       ch_carrier_freq = tracking_channel_carrier_freq_get r nap_channel
                                           * GPS_L2_HZ ext / GPS_L1_HZ ext,
                       ch_cn0 = tracking_channel_cn0_get r nap_channel,
                       ch_elevation = tracking_channel_evelation_degrees_get r nap_channel\<rparr>],
            decoder_channels := (decoder_channels r)
                [i := \<lparr>dec_active = True, dec_sid = \<lparr>sat = sat', code = CODE_GPS_L2CM\<rparr>\<rparr>],
            logged := logged r @ [Log_debug ''L2C Dopp'', Log_info ''L2 CM handover done'']\<rparr>"
proof -
  have t': "tracker_channel_available (r\<lparr>logged := l\<rparr>) i sid = tracker_channel_available r i sid"
    for l sid by (simp add: tracker_channel_available_def)
  have d': "decoder_channel_available (r\<lparr>tracker_channels := tc, logged := l\<rparr>) i sid
              = decoder_channel_available r i sid"
    for l tc sid by (simp add: decoder_channel_available_def)
  show ?thesis
    using cap
    by (simp add: do_l1ca_to_l2cm_handover_def Let_def sc tracker_channel_init_def
      decoder_channel_init_def t' d' t d tracking_channel_carrier_freq_get_def
      tracking_channel_cn0_get_def tracking_channel_evelation_degrees_get_def)
qed


lemma handover_none:
  assumes sc: "scan_channels r \<lparr>sat = sat', code = CODE_GPS_L2CM\<rparr> 0 = - 1"
    and cap: "(NOT 0 :: u32) AND push_bit (unat sat') 1 \<noteq> 0"
  shows "do_l1ca_to_l2cm_handover ext r sat' nap_channel code_phase =
          r\<lparr>logged := logged r @ [Log_warn ''No free channel for L2 CM tracking'']\<rparr>"
  using cap by (simp add: do_l1ca_to_l2cm_handover_def Let_def sc)

lemma test_receiver_slots:
  "unat (nap_track_n_channels test_receiver) = 3"
  "\<not> tracker_channel_available test_receiver 0 sid"
  "\<not> tracker_channel_available test_receiver 1 sid"
  "tracker_channel_available test_receiver 2 sid"
  "decoder_channel_available test_receiver 2 sid"
  "unat (nap_track_n_channels test_receiver_full) = 3"
  "\<not> tracker_channel_available test_receiver_full 0 sid"
  "\<not> tracker_channel_available test_receiver_full 1 sid"
  "\<not> decoder_channel_available test_receiver_full 2 sid"
  by (simp_all add: test_receiver_def test_receiver_full_def tracker_channel_available_def
      decoder_channel_available_def)

lemma less_3_cases: "j < (3::nat) \<Longrightarrow> j = 0 \<or> j = 1 \<or> j = 2"
  by arith

lemma test_receiver_one_free:
  "j < 3 \<Longrightarrow> tracker_channel_available test_receiver j sid \<Longrightarrow> j = 2"
  using less_3_cases[of j] test_receiver_slots(2,3)[of sid] by auto

lemma test_receiver_full_none_free:
  "j < 3 \<Longrightarrow>
   \<not> (tracker_channel_available test_receiver_full j sid \<and>
      decoder_channel_available test_receiver_full j sid)"
  using less_3_cases[of j] test_receiver_slots(7,8,9)[of sid] by auto

text \<open>
  C8. For a satellite whose capability bit is set (\<open>sat < 32\<close>, the capability word
  being all ones) and a parent channel that is a slot of the pool: if exactly one index below \<open>nap_track_n_channels\<close> has both its
  tracking slot and its decode slot free, the handover initialises both slots of that
  index for the L2 CM signal, logs its success, and the tracking slot's carrier frequency
  is the parent channel's multiplied by \<open>GPS_L2_HZ\<close> and divided by \<open>GPS_L1_HZ\<close>;
  if no index has both slots free, the handover logs the warning and changes nothing else.
\<close>

theorem handover_one_free_or_none:
  assumes "unat sat' < 32"
    and "sid = \<lparr>sat = sat', code = CODE_GPS_L2CM\<rparr>"
    and "unat nap_channel < length (tracker_channels r)"
  shows
    "(i < unat (nap_track_n_channels r) \<and>
      tracker_channel_available r i sid \<and> decoder_channel_available r i sid \<and>
      (\<forall>j < unat (nap_track_n_channels r).
          tracker_channel_available r j sid \<and> decoder_channel_available r j sid \<longrightarrow> j = i)
      \<longrightarrow>
        do_l1ca_to_l2cm_handover ext r sat' nap_channel code_phase =
          r\<lparr>tracker_channels := (tracker_channels r)
                [i := \<lparr>active = True, ch_sid = sid, ch_sample_count = nap_timing_count r,
                       ch_code_phase = code_phase,
                       ch_carrier_freq = tracking_channel_carrier_freq_get r nap_channel
                                           * GPS_L2_HZ ext / GPS_L1_HZ ext,
                       ch_cn0 = tracking_channel_cn0_get r nap_channel,
                       ch_elevation = tracking_channel_evelation_degrees_get r nap_channel\<rparr>],
            decoder_channels := (decoder_channels r)[i := \<lparr>dec_active = True, dec_sid = sid\<rparr>],
            logged := logged r @ [Log_debug ''L2C Dopp'', Log_info ''L2 CM handover done'']\<rparr> \<and>
        active (tracker_channels
                  (do_l1ca_to_l2cm_handover ext r sat' nap_channel code_phase) ! i) \<and>
        ch_carrier_freq (tracker_channels
                  (do_l1ca_to_l2cm_handover ext r sat' nap_channel code_phase) ! i) =
          tracking_channel_carrier_freq_get r nap_channel * GPS_L2_HZ ext / GPS_L1_HZ ext) \<and>
     ((\<forall>j < unat (nap_track_n_channels r).
          \<not> (tracker_channel_available r j sid \<and> decoder_channel_available r j sid))
      \<longrightarrow>
        do_l1ca_to_l2cm_handover ext r sat' nap_channel code_phase =
          r\<lparr>logged := logged r @ [Log_warn ''No free channel for L2 CM tracking'']\<rparr>)"
proof (intro conjI impI)
  assume h: "i < unat (nap_track_n_channels r) \<and>
      tracker_channel_available r i sid \<and> decoder_channel_available r i sid \<and>
      (\<forall>j < unat (nap_track_n_channels r).
          tracker_channel_available r j sid \<and> decoder_channel_available r j sid \<longrightarrow> j = i)"
  have sc: "scan_channels r sid 0 = int i"
  proof (rule scan_channels_first)
    show "0 \<le> i" by simp
    show "i < unat (nap_track_n_channels r)" using h by blast
    show "tracker_channel_available r i sid \<and> decoder_channel_available r i sid"
      using h by blast
    show "\<not> (tracker_channel_available r j sid \<and> decoder_channel_available r j sid)"
      if "0 \<le> j" "j < i" for j
      using h that by (metis less_trans nat_neq_iff)
  qed
  have t: "tracker_channel_available r i sid" and d: "decoder_channel_available r i sid"
    using h by blast+
  have li: "i < length (tracker_channels r)"
    using t by (simp add: tracker_channel_available_def)
  show eq: "do_l1ca_to_l2cm_handover ext r sat' nap_channel code_phase =
          r\<lparr>tracker_channels := (tracker_channels r)
                [i := \<lparr>active = True, ch_sid = sid, ch_sample_count = nap_timing_count r,
                       ch_code_phase = code_phase,
                       ch_carrier_freq = tracking_channel_carrier_freq_get r nap_channel
                                           * GPS_L2_HZ ext / GPS_L1_HZ ext,
                       ch_cn0 = tracking_channel_cn0_get r nap_channel,
                       ch_elevation = tracking_channel_evelation_degrees_get r nap_channel\<rparr>],
            decoder_channels := (decoder_channels r)[i := \<lparr>dec_active = True, dec_sid = sid\<rparr>],
            logged := logged r @ [Log_debug ''L2C Dopp'', Log_info ''L2 CM handover done'']\<rparr>"
    unfolding assms(2)
    by (rule handover_found[OF sc[unfolded assms(2)] capable[OF assms(1)]
          t[unfolded assms(2)] d[unfolded assms(2)]])
  show "active (tracker_channels
                  (do_l1ca_to_l2cm_handover ext r sat' nap_channel code_phase) ! i)"
    using li by (simp add: eq)
  show "ch_carrier_freq (tracker_channels
                  (do_l1ca_to_l2cm_handover ext r sat' nap_channel code_phase) ! i) =
          tracking_channel_carrier_freq_get r nap_channel * GPS_L2_HZ ext / GPS_L1_HZ ext"
    using li by (simp add: eq)
next
  assume n: "\<forall>j < unat (nap_track_n_channels r).
          \<not> (tracker_channel_available r j sid \<and> decoder_channel_available r j sid)"
  have sc: "scan_channels r sid 0 = - 1"
    by (rule scan_channels_none) (use n in blast)
  show "do_l1ca_to_l2cm_handover ext r sat' nap_channel code_phase =
          r\<lparr>logged := logged r @ [Log_warn ''No free channel for L2 CM tracking'']\<rparr>"
    by (rule handover_none[OF sc[unfolded assms(2)] capable[OF assms(1)]])
qed

theorem handover_one_free_or_none_witness:
  "unat (7 :: u16) < 32 \<and>
   unat (0 :: u8) < length (tracker_channels test_receiver) \<and>
   unat (0 :: u8) < length (tracker_channels test_receiver_full) \<and>
   \<not> tracker_channel_available test_receiver 0 \<lparr>sat = 7, code = CODE_GPS_L2CM\<rparr> \<and>
   \<not> tracker_channel_available test_receiver 1 \<lparr>sat = 7, code = CODE_GPS_L2CM\<rparr> \<and>
   tracker_channel_available test_receiver 2 \<lparr>sat = 7, code = CODE_GPS_L2CM\<rparr> \<and>
   decoder_channel_available test_receiver 2 \<lparr>sat = 7, code = CODE_GPS_L2CM\<rparr> \<and>
   active (tracker_channels
             (do_l1ca_to_l2cm_handover (test_externals 40 locked 0) test_receiver 7 0 12) ! 2) \<and>
   ch_carrier_freq (tracker_channels
             (do_l1ca_to_l2cm_handover (test_externals 40 locked 0) test_receiver 7 0 12) ! 2)
     = 1227600 \<and>
   \<not> tracker_channel_available test_receiver_full 0 \<lparr>sat = 7, code = CODE_GPS_L2CM\<rparr> \<and>
   \<not> tracker_channel_available test_receiver_full 1 \<lparr>sat = 7, code = CODE_GPS_L2CM\<rparr> \<and>
   \<not> decoder_channel_available test_receiver_full 2 \<lparr>sat = 7, code = CODE_GPS_L2CM\<rparr> \<and>
   do_l1ca_to_l2cm_handover (test_externals 40 locked 0) test_receiver_full 7 0 12 =
     test_receiver_full\<lparr>logged := [Log_warn ''No free channel for L2 CM tracking'']\<rparr>"
proof -
  let ?sid = "\<lparr>sat = 7, code = CODE_GPS_L2CM\<rparr>"
  let ?E = "test_externals 40 locked 0"
  have c: "unat (7 :: u16) < 32" by simp
  have u: "\<forall>j < unat (nap_track_n_channels test_receiver).
          tracker_channel_available test_receiver j ?sid \<and>
          decoder_channel_available test_receiver j ?sid \<longrightarrow> j = 2"
    unfolding test_receiver_slots(1) using test_receiver_one_free by blast
  have n2: "2 < unat (nap_track_n_channels test_receiver)"
    unfolding test_receiver_slots(1) by simp
  have one: "2 < unat (nap_track_n_channels test_receiver) \<and>
      tracker_channel_available test_receiver 2 ?sid \<and>
      decoder_channel_available test_receiver 2 ?sid \<and>
      (\<forall>j < unat (nap_track_n_channels test_receiver).
          tracker_channel_available test_receiver j ?sid \<and>
          decoder_channel_available test_receiver j ?sid \<longrightarrow> j = 2)"
    using n2 test_receiver_slots(4)[of ?sid] test_receiver_slots(5)[of ?sid] u by blast
  have none: "\<forall>j < unat (nap_track_n_channels test_receiver_full).
          \<not> (tracker_channel_available test_receiver_full j ?sid \<and>
             decoder_channel_available test_receiver_full j ?sid)"
    unfolding test_receiver_slots(6) using test_receiver_full_none_free by blast
  have p: "unat (0 :: u8) < length (tracker_channels test_receiver)"
    and p': "unat (0 :: u8) < length (tracker_channels test_receiver_full)"
    by (simp_all add: test_receiver_def test_receiver_full_def)
  note found = handover_one_free_or_none[OF c refl p, of 2 ?E 12, THEN conjunct1, THEN mp,
      OF one]
  note full = handover_one_free_or_none[OF c refl p', of 2 ?E 12, THEN conjunct2, THEN mp,
      OF none]
  have f: "tracking_channel_carrier_freq_get test_receiver 0 * GPS_L2_HZ ?E / GPS_L1_HZ ?E
            = 1227600"
    by (simp add: tracking_channel_carrier_freq_get_def test_receiver_def test_externals_def)
  have a1: "active (tracker_channels (do_l1ca_to_l2cm_handover ?E test_receiver 7 0 12) ! 2)"
    using found by (rule conjunct2[THEN conjunct1])
  have a2: "ch_carrier_freq (tracker_channels
              (do_l1ca_to_l2cm_handover ?E test_receiver 7 0 12) ! 2) = 1227600"
    using found[THEN conjunct2, THEN conjunct2] f by (rule trans)
  have l: "logged test_receiver_full = []"
    by (simp add: test_receiver_full_def test_receiver_def)
  have b: "do_l1ca_to_l2cm_handover ?E test_receiver_full 7 0 12 =
     test_receiver_full\<lparr>logged := [Log_warn ''No free channel for L2 CM tracking'']\<rparr>"
    using full unfolding l by simp
  show ?thesis
    using c p p' test_receiver_slots(2)[of ?sid] test_receiver_slots(3)[of ?sid]
      test_receiver_slots(4)[of ?sid] test_receiver_slots(5)[of ?sid] a1 a2
      test_receiver_slots(7)[of ?sid] test_receiver_slots(8)[of ?sid]
      test_receiver_slots(9)[of ?sid] b
    by (intro conjI)
qed

end
